theory Spec2Isabelle
  imports Complex_Main "HOL-Library.Word" "HOL-Library.Sublist"
begin

section \<open>Pixels, matrices and single-precision numbers\<close>

text \<open>
  The embedding follows \<^verbatim>\<open>combineBottomImagesWithPoleRemoval\<close> of
  \<^verbatim>\<open>surround360_render/source/render/PoleRemoval.cpp\<close>.
  An 8-bit channel is an \<open>8 word\<close>; \<^verbatim>\<open>Vec3b\<close> and \<^verbatim>\<open>Vec4b\<close> are
  the OpenCV pixel types, channel \<open>0\<close> blue, \<open>1\<close> green, \<open>2\<close> red and (for
  \<^verbatim>\<open>Vec4b\<close>) \<open>3\<close> alpha.
\<close>

type_synonym uchar = "8 word"

datatype Vec3b = Vec3b (px0: uchar) (px1: uchar) (px2: uchar)

datatype Vec4b = Vec4b (ch0: uchar) (ch1: uchar) (ch2: uchar) (ch3: uchar)

text \<open>
  A \<^verbatim>\<open>cv::Mat\<close> of a fixed element type is the list of its rows.
  \<^verbatim>\<open>m.rows\<close> and \<^verbatim>\<open>m.cols\<close> are \<open>rows\<close> and \<open>cols\<close>;
  \<^verbatim>\<open>m.at<T>(y, x)\<close> is \<open>mat_at m y x\<close> and is meaningful only for
  \<open>y < rows m\<close> and \<open>x < cols m\<close> (OpenCV does not check the index in a release
  build); an assignment to \<^verbatim>\<open>m.at<T>(y, x)\<close> is \<open>set_at\<close>.
  A matrix is rectangular (\<open>rect\<close>) when every row has \<open>cols\<close> elements, as
  every \<^verbatim>\<open>cv::Mat\<close> is.
\<close>

type_synonym 'a mat = "'a list list"

definition rows :: "'a mat \<Rightarrow> nat" where
  "rows m = length m"

definition cols :: "'a mat \<Rightarrow> nat" where
  "cols m = (case m of [] \<Rightarrow> 0 | r # _ \<Rightarrow> length r)"

definition mat_at :: "'a mat \<Rightarrow> nat \<Rightarrow> nat \<Rightarrow> 'a" where
  "mat_at m y x = m ! y ! x"

definition set_at :: "'a mat \<Rightarrow> nat \<Rightarrow> nat \<Rightarrow> 'a \<Rightarrow> 'a mat" where
  "set_at m y x v = m[y := (m ! y)[x := v]]"

definition rect :: "'a mat \<Rightarrow> bool" where
  "rect m = list_all (\<lambda>r. length r = cols m) m"

definition same_size :: "'a mat \<Rightarrow> 'b mat \<Rightarrow> bool" where
  "same_size m n = (rows m = rows n \<and> cols m = cols n)"

text \<open>
  A C++ \<^verbatim>\<open>float\<close> is an IEEE 754 binary32 number: a rational \<open>Finite q\<close>,
  an infinity (\<open>Infinity True\<close> is the negative one) or \<open>NaN\<close>. The two zeros
  are not told apart: the function never divides by a variable. Each operation
  computes the exact result and rounds it once to the nearest binary32 number, ties
  to even (\<open>round32\<close>): \<open>binexp q\<close> is the exponent of the binade of \<open>q\<close>,
  found by halving or doubling \<open>q\<close> into \<open>[1, 2)\<close>; it is at most \<open>127\<close> and at
  least \<open>-126\<close> (below it the numbers are subnormal), and \<open>fl32\<close> rounds to a
  multiple of the spacing \<open>2 ^ (binexp q - 23)\<close> there.
\<close>

datatype float = Finite rat | Infinity bool | NaN

definition round_even :: "rat \<Rightarrow> int" where
  "round_even q = (let f = \<lfloor>q\<rfloor>; d = q - of_int f in
     if d < 1 / 2 then f else if 1 / 2 < d then f + 1 else if even f then f else f + 1)"

fun halvings :: "nat \<Rightarrow> rat \<Rightarrow> int" where
  "halvings 0 q = 0"
| "halvings (Suc n) q = (if q < 2 then 0 else 1 + halvings n (q / 2))"

fun doublings :: "nat \<Rightarrow> rat \<Rightarrow> int" where
  "doublings 0 q = 0"
| "doublings (Suc n) q = (if 1 \<le> q then 0 else 1 + doublings n (q * 2))"

definition binexp :: "rat \<Rightarrow> int" where
  "binexp q = (if 1 \<le> \<bar>q\<bar> then halvings 127 \<bar>q\<bar> else - doublings 126 \<bar>q\<bar>)"

definition fl32 :: "rat \<Rightarrow> rat" where
  "fl32 q = (let u = 2 powi (binexp q - 23) in of_int (round_even (q / u)) * u)"

definition round32 :: "rat \<Rightarrow> float" where
  "round32 q = (let r = fl32 q in if 2 powi 128 \<le> \<bar>r\<bar> then Infinity (q < 0) else Finite r)"

fun fneg :: "float \<Rightarrow> float" where
  "fneg (Finite a) = Finite (- a)"
| "fneg (Infinity s) = Infinity (\<not> s)"
| "fneg NaN = NaN"

fun fadd :: "float \<Rightarrow> float \<Rightarrow> float" where
  "fadd (Finite a) (Finite b) = round32 (a + b)"
| "fadd (Finite a) (Infinity t) = Infinity t"
| "fadd (Infinity s) (Finite b) = Infinity s"
| "fadd (Infinity s) (Infinity t) = (if s = t then Infinity s else NaN)"
| "fadd NaN b = NaN"
| "fadd a NaN = NaN"

definition fsub :: "float \<Rightarrow> float \<Rightarrow> float" where
  "fsub a b = fadd a (fneg b)"

fun fmul :: "float \<Rightarrow> float \<Rightarrow> float" where
  "fmul (Finite a) (Finite b) = round32 (a * b)"
| "fmul (Finite a) (Infinity t) = (if a = 0 then NaN else Infinity (t \<noteq> (a < 0)))"
| "fmul (Infinity s) (Finite b) = (if b = 0 then NaN else Infinity (s \<noteq> (b < 0)))"
| "fmul (Infinity s) (Infinity t) = Infinity (s \<noteq> t)"
| "fmul NaN b = NaN"
| "fmul a NaN = NaN"

fun fdiv :: "float \<Rightarrow> float \<Rightarrow> float" where
  "fdiv (Finite a) (Finite b) =
     (if b = 0 then (if a = 0 then NaN else Infinity (a < 0)) else round32 (a / b))"
| "fdiv (Finite a) (Infinity t) = Finite 0"
| "fdiv (Infinity s) (Finite b) = Infinity (s \<noteq> (b < 0))"
| "fdiv (Infinity s) (Infinity t) = NaN"
| "fdiv NaN b = NaN"
| "fdiv a NaN = NaN"

fun flt :: "float \<Rightarrow> float \<Rightarrow> bool" where
  "flt (Finite a) (Finite b) = (a < b)"
| "flt (Finite a) (Infinity t) = (\<not> t)"
| "flt (Infinity s) (Finite b) = s"
| "flt (Infinity s) (Infinity t) = (s \<and> \<not> t)"
| "flt NaN b = False"
| "flt a NaN = False"

definition fgt :: "float \<Rightarrow> float \<Rightarrow> bool" where
  "fgt a b = flt b a"

text \<open>
  Conversions. An \<^verbatim>\<open>int\<close> becomes the nearest \<^verbatim>\<open>float\<close>; an
  \<^verbatim>\<open>unsigned char\<close> is below \<open>2 ^ 24\<close> and converts exactly. A
  \<^verbatim>\<open>float\<close> passed where \<^verbatim>\<open>Vec4b\<close>'s constructor takes an
  \<^verbatim>\<open>unsigned char\<close> is truncated towards zero; C++ leaves the conversion
  undefined when the truncated value is not in \<open>0..255\<close>, and the model then keeps
  the low eight bits (and gives \<open>0\<close> for an infinity or a NaN).
\<close>

definition float_of_int :: "int \<Rightarrow> float" where
  "float_of_int i = round32 (of_int i)"

definition float_of_uchar :: "uchar \<Rightarrow> float" where
  "float_of_uchar c = Finite (of_int (uint c))"

definition trunc :: "rat \<Rightarrow> int" where
  "trunc q = (if 0 \<le> q then \<lfloor>q\<rfloor> else \<lceil>q\<rceil>)"

fun uchar_of_float :: "float \<Rightarrow> uchar" where
  "uchar_of_float (Finite q) = word_of_int (trunc q)"
| "uchar_of_float (Infinity s) = 0"
| "uchar_of_float NaN = 0"

section \<open>The compositing loop (lines 149 to 172)\<close>

text \<open>
  \<open>combine_at\<close> is the body of the two nested loops at pixel \<open>(y, x)\<close>: it
  reads the primary image \<open>img\<close> (\<^verbatim>\<open>bottomImage\<close>, updated in place)
  and the colour-adjusted warped secondary \<open>adj\<close>
  (\<^verbatim>\<open>adjustedBottomImage2\<close>). \<open>combine_loop\<close> is the loop nest; the bounds
  \<^verbatim>\<open>bottomImage.rows\<close> and \<^verbatim>\<open>bottomImage.cols\<close> are read from the
  image being updated.
\<close>

definition combine_at :: "Vec4b mat \<Rightarrow> nat \<Rightarrow> nat \<Rightarrow> Vec4b mat \<Rightarrow> Vec4b mat" where
  "combine_at adj y x img =
     (let alpha = fdiv (float_of_uchar (ch3 (mat_at img y x))) (Finite 255);
          alpha2 = fdiv (float_of_uchar (ch3 (mat_at adj y x))) (Finite 255)
      in if flt alpha (Finite 1) \<and> fgt alpha2 (Finite 0) then
           let a1 = alpha;
               a2 = fsub (Finite 1) alpha;
               r1 = float_of_uchar (ch2 (mat_at img y x));
               g1 = float_of_uchar (ch1 (mat_at img y x));
               b1 = float_of_uchar (ch0 (mat_at img y x));
               r2 = float_of_uchar (ch2 (mat_at adj y x));
               g2 = float_of_uchar (ch1 (mat_at adj y x));
               b2 = float_of_uchar (ch0 (mat_at adj y x))
           in set_at img y x
                (Vec4b (uchar_of_float (fadd (fmul a1 b1) (fmul a2 b2)))
                       (uchar_of_float (fadd (fmul a1 g1) (fmul a2 g2)))
                       (uchar_of_float (fadd (fmul a1 r1) (fmul a2 r2)))
                       255)
         else img)"

definition combine_row :: "Vec4b mat \<Rightarrow> nat \<Rightarrow> Vec4b mat \<Rightarrow> Vec4b mat" where
  "combine_row adj y img = fold (\<lambda>x. combine_at adj y x) [0..<cols img] img"

definition combine_loop :: "Vec4b mat \<Rightarrow> Vec4b mat \<Rightarrow> Vec4b mat" where
  "combine_loop adj img = fold (\<lambda>y. combine_row adj y) [0..<rows img] img"

text \<open>
  \<open>normalized_alpha\<close> is the alpha of a pixel divided by \<open>255\<close>, and
  \<open>mix a1 c d\<close> is \<open>a1 * c + (1 - a1) * d\<close> for one colour channel, computed in
  single precision and stored in eight bits. \<open>blend_px p q\<close> is the pixel the loop
  body leaves where the primary pixel was \<open>p\<close> and the adjusted secondary pixel is
  \<open>q\<close>.
\<close>

definition normalized_alpha :: "Vec4b \<Rightarrow> float" where
  "normalized_alpha p = fdiv (float_of_uchar (ch3 p)) (Finite 255)"

definition mix :: "float \<Rightarrow> uchar \<Rightarrow> uchar \<Rightarrow> uchar" where
  "mix a1 c d =
     uchar_of_float (fadd (fmul a1 (float_of_uchar c)) (fmul (fsub (Finite 1) a1) (float_of_uchar d)))"

definition blend_px :: "Vec4b \<Rightarrow> Vec4b \<Rightarrow> Vec4b" where
  "blend_px p q =
     (let a1 = normalized_alpha p; a2 = normalized_alpha q
      in if flt a1 (Finite 1) \<and> fgt a2 (Finite 0)
         then Vec4b (mix a1 (ch0 p) (ch0 q)) (mix a1 (ch1 p) (ch1 q)) (mix a1 (ch2 p) (ch2 q)) 255
         else p)"

text \<open>
  The rule of the specification for one pixel, in its words and in the order of its
  three cases, with \<open>a1\<close> the normalised alpha of the primary pixel and \<open>a2\<close>
  that of the adjusted secondary pixel: \<open>a1 = 1\<close> leaves the primary pixel;
  \<open>a1 < 1\<close> and \<open>a2 = 0\<close> leaves it; \<open>a1 < 1\<close> and \<open>a2 > 0\<close> gives the
  weighted colour and full alpha. Any other case leaves the primary pixel.
\<close>

definition spec_blend :: "Vec4b \<Rightarrow> Vec4b \<Rightarrow> Vec4b" where
  "spec_blend p q =
     (let a1 = normalized_alpha p; a2 = normalized_alpha q
      in if a1 = Finite 1 then p
         else if flt a1 (Finite 1) \<and> a2 = Finite 0 then p
         else if flt a1 (Finite 1) \<and> fgt a2 (Finite 0)
         then Vec4b (mix a1 (ch0 p) (ch0 q)) (mix a1 (ch1 p) (ch1 q)) (mix a1 (ch2 p) (ch2 q)) 255
         else p)"

section \<open>Image operations the function calls\<close>

text \<open>
  \<open>map_px f m\<close> is the matrix of the size of \<open>m\<close> whose element at \<open>(y, x)\<close>
  is \<open>f y x\<close> of the element of \<open>m\<close> there: a loop over all pixels that writes
  each pixel from its own old value and its position.
\<close>

definition map_px :: "(nat \<Rightarrow> nat \<Rightarrow> 'a \<Rightarrow> 'b) \<Rightarrow> 'a mat \<Rightarrow> 'b mat" where
  "map_px f m = map (\<lambda>(y, r). map (\<lambda>(x, p). f y x p) (enumerate 0 r)) (enumerate 0 m)"

definition with_alpha :: "Vec4b \<Rightarrow> uchar \<Rightarrow> Vec4b" where
  "with_alpha p a = Vec4b (ch0 p) (ch1 p) (ch2 p) a"

definition color_of :: "Vec4b \<Rightarrow> Vec3b" where
  "color_of p = Vec3b (ch0 p) (ch1 p) (ch2 p)"

text \<open>
  OpenCV's \<^verbatim>\<open>cvtColor(src, dst, CV_BGR2BGRA)\<close> adds an alpha channel of
  \<open>255\<close>; \<^verbatim>\<open>flip(src, dst, -1)\<close> flips around both axes, which is the rotation
  by 180 degrees.
\<close>

definition cvtColor_BGR2BGRA :: "Vec3b mat \<Rightarrow> Vec4b mat" where
  "cvtColor_BGR2BGRA m = map (map (\<lambda>p. Vec4b (px0 p) (px1 p) (px2 p) 255)) m"

definition flip_both :: "'a mat \<Rightarrow> 'a mat" where
  "flip_both m = rev (map rev m)"

text \<open>
  The collaborators of the function that are not part of the file: the lookup of the
  two bottom cameras, the geometry of the usable circle, the test of a pole-mask
  pixel, the smoothing of an alpha plane, the registry of motion-estimation engines,
  OpenCV's interpolation kernels, and the colour model. They are the fields of
  \<open>collaborators\<close>, and every definition below takes them as \<open>env\<close>.
  An engine gets the two working images, the previous flow and the two previous
  working images, and the direction hint, and returns the flow.
\<close>

record CameraMetadata =
  cameraId :: string
  usablePixelsRadius :: float
  flip180 :: bool

datatype Point2f = Point2f (pt_x: float) (pt_y: float)

datatype Mat = Mat0 | Mat8UC3 "Vec3b mat" | Mat8UC4 "Vec4b mat" | Mat32FC2 "Point2f mat"

datatype DirectionHint = UNKNOWN | RIGHT | DOWN | LEFT | UP

datatype interpolation = CV_INTER_NN | CV_INTER_LINEAR | CV_INTER_CUBIC

datatype border = BORDER_CONSTANT | BORDER_REPLICATE | BORDER_WRAP

type_synonym engine =
  "Vec4b mat \<Rightarrow> Vec4b mat \<Rightarrow> Point2f mat \<Rightarrow> Mat \<Rightarrow> Mat \<Rightarrow> DirectionHint \<Rightarrow> Point2f mat"

record collaborators =
  getBottomCamModel :: "CameraMetadata list \<Rightarrow> CameraMetadata option"
  getBottomCamModel2 :: "CameraMetadata list \<Rightarrow> CameraMetadata option"
  inUsableCircle :: "nat \<Rightarrow> nat \<Rightarrow> float \<Rightarrow> nat \<Rightarrow> nat \<Rightarrow> bool"
  isPoleMarked :: "Vec3b \<Rightarrow> bool"
  smoothedAlpha :: "int \<Rightarrow> uchar mat \<Rightarrow> nat \<Rightarrow> nat \<Rightarrow> uchar"
  makeOpticalFlowByName :: "string \<Rightarrow> engine option"
  interpolate :: "interpolation \<Rightarrow> (int \<Rightarrow> int \<Rightarrow> Vec4b) \<Rightarrow> Point2f \<Rightarrow> Vec4b"
  buildColorAdjustmentModel :: "Vec4b mat \<Rightarrow> Vec4b mat \<Rightarrow> float list list"
  adjustChannel :: "float list list \<Rightarrow> nat \<Rightarrow> uchar \<Rightarrow> uchar"

text \<open>
  Modelled from the spec: \<^verbatim>\<open>circleAlphaCut\<close> (declared in CvUtil.h, not part
  of the file) zeroes alpha outside the circular usable-radius region centred on the
  optical axis. \<open>inUsableCircle env h w r y x\<close> says whether pixel \<open>(y, x)\<close> of
  an image of \<open>h\<close> rows and \<open>w\<close> columns is inside the circle of radius \<open>r\<close>.
\<close>

definition circleAlphaCut :: "collaborators \<Rightarrow> Vec4b mat \<Rightarrow> float \<Rightarrow> Vec4b mat" where
  "circleAlphaCut env img radius =
     map_px (\<lambda>y x p. if inUsableCircle env (rows img) (cols img) radius y x then p
                      else with_alpha p 0) img"

text \<open>
  Modelled from the spec: \<^verbatim>\<open>cutRedMaskOutOfAlphaChannel\<close> (CvUtil.h) zeroes
  alpha wherever the pole mask marks exclusion, pixel by pixel.
\<close>

definition cutRedMaskOutOfAlphaChannel ::
  "collaborators \<Rightarrow> Vec4b mat \<Rightarrow> Vec3b mat \<Rightarrow> Vec4b mat" where
  "cutRedMaskOutOfAlphaChannel env img redMask =
     map_px (\<lambda>y x p. if isPoleMarked env (mat_at redMask y x) then with_alpha p 0 else p) img"

text \<open>
  Modelled from the spec: \<^verbatim>\<open>featherAlphaChannel\<close> (CvUtil.h) smooths alpha
  across a boundary band of the feather width; it returns a new image with the new
  alpha plane. \<open>smoothedAlpha env size plane y x\<close> is the smoothed alpha at
  \<open>(y, x)\<close>, computed from the whole alpha plane.
\<close>

definition featherAlphaChannel :: "collaborators \<Rightarrow> Vec4b mat \<Rightarrow> int \<Rightarrow> Vec4b mat" where
  "featherAlphaChannel env img featherSize =
     map_px (\<lambda>y x p. with_alpha p (smoothedAlpha env featherSize (map (map ch3) img) y x)) img"

text \<open>
  Modelled from the spec: \<^verbatim>\<open>applyColorAdjustmentModel\<close> (CvUtil.h) maps every
  pixel's colour channels through the fitted per-channel correction; the alpha channel
  passes through unchanged.
\<close>

definition applyColorAdjustmentModel ::
  "collaborators \<Rightarrow> Vec4b mat \<Rightarrow> float list list \<Rightarrow> Vec4b mat" where
  "applyColorAdjustmentModel env img model =
     map (map (\<lambda>p. Vec4b (adjustChannel env model 0 (ch0 p)) (adjustChannel env model 1 (ch1 p))
                          (adjustChannel env model 2 (ch2 p)) (ch3 p))) img"

text \<open>
  OpenCV's \<^verbatim>\<open>remap(src, dst, map1, Mat(), interpolation, borderMode)\<close>, with
  the default border value \<^verbatim>\<open>Scalar()\<close>, which is zero in every channel:
  \<open>dst\<close> has the size of \<open>map1\<close>, and its pixel at \<open>(y, x)\<close> is interpolated
  from \<open>src\<close> around the point \<open>map1(y, x)\<close>. The interpolation kernel reads
  \<open>src\<close> at integer positions through \<open>border_fetch\<close>, which extrapolates a
  position outside \<open>src\<close> by the border mode.
\<close>

definition border_fetch :: "border \<Rightarrow> Vec4b \<Rightarrow> Vec4b mat \<Rightarrow> int \<Rightarrow> int \<Rightarrow> Vec4b" where
  "border_fetch b borderValue src x y =
     (if 0 \<le> x \<and> x < int (cols src) \<and> 0 \<le> y \<and> y < int (rows src)
      then mat_at src (nat y) (nat x)
      else case b of
        BORDER_CONSTANT \<Rightarrow> borderValue
      | BORDER_REPLICATE \<Rightarrow>
          mat_at src (nat (max 0 (min (int (rows src) - 1) y)))
                     (nat (max 0 (min (int (cols src) - 1) x)))
      | BORDER_WRAP \<Rightarrow> mat_at src (nat (y mod int (rows src))) (nat (x mod int (cols src))))"

definition remap ::
  "collaborators \<Rightarrow> Vec4b mat \<Rightarrow> Point2f mat \<Rightarrow> interpolation \<Rightarrow> border \<Rightarrow> Vec4b mat" where
  "remap env src map1 interp b =
     map (map (\<lambda>pt. interpolate env interp (border_fetch b (Vec4b 0 0 0 0) src) pt)) map1"

section \<open>Warp construction (lines 121 to 126)\<close>

text \<open>
  \<^verbatim>\<open>Mat warpMat(bottomImage.size(), CV_32FC2)\<close> allocates the matrix without
  initialising it; the model starts from zeros, and the loop assigns every element.
  \<^verbatim>\<open>Point2f(x, y)\<close> converts the two \<^verbatim>\<open>int\<close>s, and \<open>+\<close> adds
  componentwise in single precision.
\<close>

definition point_add :: "Point2f \<Rightarrow> Point2f \<Rightarrow> Point2f" where
  "point_add p q = Point2f (fadd (pt_x p) (pt_x q)) (fadd (pt_y p) (pt_y q))"

definition new_warpMat :: "nat \<Rightarrow> nat \<Rightarrow> Point2f mat" where
  "new_warpMat h w = replicate h (replicate w (Point2f (Finite 0) (Finite 0)))"

definition warp_at :: "Point2f mat \<Rightarrow> nat \<Rightarrow> nat \<Rightarrow> Point2f mat \<Rightarrow> Point2f mat" where
  "warp_at flow y x warpMat =
     set_at warpMat y x
       (point_add (Point2f (float_of_int (int x)) (float_of_int (int y))) (mat_at flow y x))"

definition warp_row :: "Point2f mat \<Rightarrow> nat \<Rightarrow> Point2f mat \<Rightarrow> Point2f mat" where
  "warp_row flow y warpMat = fold (\<lambda>x. warp_at flow y x) [0..<cols warpMat] warpMat"

definition warp_loop :: "Point2f mat \<Rightarrow> Point2f mat \<Rightarrow> Point2f mat" where
  "warp_loop flow warpMat = fold (\<lambda>y. warp_row flow y) [0..<rows warpMat] warpMat"

text \<open>\<open>warp_point flow y x\<close> is the point the loop stores at \<open>(y, x)\<close>.\<close>

definition warp_point :: "Point2f mat \<Rightarrow> nat \<Rightarrow> nat \<Rightarrow> Point2f" where
  "warp_point flow y x =
     point_add (Point2f (float_of_int (int x)) (float_of_int (int y))) (mat_at flow y x)"

section \<open>Files, failures and the sequence of calls\<close>

text \<open>
  The function reads and writes files, calls the engine and may stop with an
  exception or a failed assertion at several places. A \<open>world\<close> holds the decoded
  content of every file, the paths that cannot be written, and the list of the calls
  made so far, in program order (\<open>events\<close>): every call to a collaborator, every
  file access and each of the two loops of the function appends its event when it
  starts. An action takes the world and returns the error or the value, and the new
  world; after an error nothing more runs.
\<close>

datatype which = Primary | Secondary

datatype event =
    Call_getBottomCamModel which
  | Call_imread string int
  | Call_cvtColor which
  | Call_circleAlphaCut which
  | Call_cutRedMaskOutOfAlphaChannel which
  | Call_featherAlphaChannel which
  | Call_flip which
  | Call_readFlowFromFile string
  | Call_makeOpticalFlowByName string
  | Call_computeOpticalFlow "Vec4b mat" "Vec4b mat" "Point2f mat" Mat Mat DirectionHint
  | Call_saveFlowToFile string "Point2f mat"
  | Call_imwrite string "Vec4b mat"
  | Assert_same_size
  | Loop_warpMat
  | Call_remap interpolation border
  | Call_buildColorAdjustmentModel
  | Call_applyColorAdjustmentModel
  | Loop_combine

datatype error =
    VrCamException string
  | AssertionFailed
  | CameraNotFound which
  | ImreadFailed string
  | ImwriteFailed string
  | ReadFlowFailed string
  | SaveFlowFailed string
  | UnknownFlowAlgorithm string

record world =
  files :: "string \<Rightarrow> Mat option"
  write_fails :: "string \<Rightarrow> bool"
  events :: "event list"

type_synonym 'a io = "world \<Rightarrow> (error + 'a) \<times> world"

definition io_return :: "'a \<Rightarrow> 'a io" where
  "io_return v w = (Inr v, w)"

definition io_throw :: "error \<Rightarrow> 'a io" where
  "io_throw e w = (Inl e, w)"

definition io_bind :: "'a io \<Rightarrow> ('a \<Rightarrow> 'b io) \<Rightarrow> 'b io" where
  "io_bind m f w = (case m w of (Inl e, w') \<Rightarrow> (Inl e, w') | (Inr v, w') \<Rightarrow> f v w')"

definition emit :: "event \<Rightarrow> unit io" where
  "emit e w = (Inr (), w\<lparr>events := events w @ [e]\<rparr>)"

definition step :: "event \<Rightarrow> 'a \<Rightarrow> 'a io" where
  "step e v = io_bind (emit e) (\<lambda>_. io_return v)"

definition io_when :: "bool \<Rightarrow> unit io \<Rightarrow> unit io" where
  "io_when c m = (if c then m else io_return ())"

text \<open>
  Modelled from the spec: the camera lookup (CameraMetadata.h) picks the primary and
  the secondary bottom camera from the rig metadata and fails when the rig has none.
\<close>

definition call_getBottomCamModel :: "collaborators \<Rightarrow> CameraMetadata list \<Rightarrow> CameraMetadata io" where
  "call_getBottomCamModel env cams =
     io_bind (emit (Call_getBottomCamModel Primary)) (\<lambda>_.
       case getBottomCamModel env cams of
         None \<Rightarrow> io_throw (CameraNotFound Primary)
       | Some c \<Rightarrow> io_return c)"

definition call_getBottomCamModel2 :: "collaborators \<Rightarrow> CameraMetadata list \<Rightarrow> CameraMetadata io" where
  "call_getBottomCamModel2 env cams =
     io_bind (emit (Call_getBottomCamModel Secondary)) (\<lambda>_.
       case getBottomCamModel2 env cams of
         None \<Rightarrow> io_throw (CameraNotFound Secondary)
       | Some c \<Rightarrow> io_return c)"

text \<open>
  Modelled from the spec: \<^verbatim>\<open>imreadExceptionOnFail\<close> (CvUtil.h) raises when the
  image is unreadable. With the flag \<^verbatim>\<open>CV_LOAD_IMAGE_COLOR\<close> (which is \<open>1\<close>)
  OpenCV returns three channels; with \<open>-1\<close> it returns the image as stored. A file
  that holds no image, or none at all, is unreadable.
\<close>

definition decode_color :: "Mat option \<Rightarrow> Vec3b mat option" where
  "decode_color f = (case f of
       Some (Mat8UC3 m) \<Rightarrow> Some m
     | Some (Mat8UC4 m) \<Rightarrow> Some (map (map color_of) m)
     | _ \<Rightarrow> None)"

definition decode_unchanged :: "Mat option \<Rightarrow> Mat option" where
  "decode_unchanged f = (case f of
       Some (Mat8UC3 m) \<Rightarrow> Some (Mat8UC3 m)
     | Some (Mat8UC4 m) \<Rightarrow> Some (Mat8UC4 m)
     | _ \<Rightarrow> None)"

definition decode_flow :: "Mat option \<Rightarrow> Point2f mat option" where
  "decode_flow f = (case f of Some (Mat32FC2 m) \<Rightarrow> Some m | _ \<Rightarrow> None)"

definition imreadExceptionOnFail_color :: "string \<Rightarrow> Vec3b mat io" where
  "imreadExceptionOnFail_color path =
     io_bind (emit (Call_imread path 1)) (\<lambda>_ w.
       case decode_color (files w path) of
         Some m \<Rightarrow> io_return m w
       | None \<Rightarrow> io_throw (ImreadFailed path) w)"

definition imreadExceptionOnFail_unchanged :: "string \<Rightarrow> Mat io" where
  "imreadExceptionOnFail_unchanged path =
     io_bind (emit (Call_imread path (- 1))) (\<lambda>_ w.
       case decode_unchanged (files w path) of
         Some m \<Rightarrow> io_return m w
       | None \<Rightarrow> io_throw (ImreadFailed path) w)"

text \<open>
  Modelled from the spec: \<^verbatim>\<open>imwriteExceptionOnFail\<close> (CvUtil.h),
  \<^verbatim>\<open>readFlowFromFile\<close> and \<^verbatim>\<open>saveFlowToFile\<close> (the flow serialisation):
  a write that fails and a cached field that cannot be read are fatal.
\<close>

definition imwriteExceptionOnFail :: "string \<Rightarrow> Vec4b mat \<Rightarrow> unit io" where
  "imwriteExceptionOnFail path img =
     io_bind (emit (Call_imwrite path img)) (\<lambda>_ w.
       if write_fails w path then io_throw (ImwriteFailed path) w
       else (Inr (), w\<lparr>files := (files w)(path \<mapsto> Mat8UC4 img)\<rparr>))"

definition readFlowFromFile :: "string \<Rightarrow> Point2f mat io" where
  "readFlowFromFile path =
     io_bind (emit (Call_readFlowFromFile path)) (\<lambda>_ w.
       case decode_flow (files w path) of
         Some f \<Rightarrow> io_return f w
       | None \<Rightarrow> io_throw (ReadFlowFailed path) w)"

definition saveFlowToFile :: "Point2f mat \<Rightarrow> string \<Rightarrow> unit io" where
  "saveFlowToFile flow path =
     io_bind (emit (Call_saveFlowToFile path flow)) (\<lambda>_ w.
       if write_fails w path then io_throw (SaveFlowFailed path) w
       else (Inr (), w\<lparr>files := (files w)(path \<mapsto> Mat32FC2 flow)\<rparr>))"

text \<open>
  Modelled from the spec: \<^verbatim>\<open>makeOpticalFlowByName\<close> (OpticalFlowFactory.h)
  looks the engine up in a registry keyed by name.
\<close>

definition call_makeOpticalFlowByName :: "collaborators \<Rightarrow> string \<Rightarrow> engine io" where
  "call_makeOpticalFlowByName env name =
     io_bind (emit (Call_makeOpticalFlowByName name)) (\<lambda>_.
       case makeOpticalFlowByName env name of
         None \<Rightarrow> io_throw (UnknownFlowAlgorithm name)
       | Some alg \<Rightarrow> io_return alg)"

definition computeOpticalFlow ::
  "engine \<Rightarrow> Vec4b mat \<Rightarrow> Vec4b mat \<Rightarrow> Point2f mat \<Rightarrow> Mat \<Rightarrow> Mat \<Rightarrow> DirectionHint \<Rightarrow> Point2f mat io" where
  "computeOpticalFlow alg I0 I1 prevFlow prevI0 prevI1 hint =
     step (Call_computeOpticalFlow I0 I1 prevFlow prevI0 prevI1 hint)
       (alg I0 I1 prevFlow prevI0 prevI1 hint)"

section \<open>The function, in the order of its lines\<close>

text \<open>Lines 45 to 63: the two camera records, the two images, the two pole masks.\<close>

definition load_inputs ::
  "collaborators \<Rightarrow> string \<Rightarrow> string \<Rightarrow> CameraMetadata list \<Rightarrow>
   (CameraMetadata \<times> CameraMetadata \<times> Vec3b mat \<times> Vec3b mat \<times> Vec3b mat \<times> Vec3b mat) io" where
  "load_inputs env imagesDir poleMaskDir camModelArrayWithTop =
     io_bind (call_getBottomCamModel env camModelArrayWithTop) (\<lambda>bottomCamModel.
     io_bind (call_getBottomCamModel2 env camModelArrayWithTop) (\<lambda>bottomCamModel2.
     let bottomImageFilename = cameraId bottomCamModel @ ''.png'';
         bottomImagePath = imagesDir @ ''/'' @ bottomImageFilename;
         bottomImageFilename2 = cameraId bottomCamModel2 @ ''.png'';
         bottomImagePath2 = imagesDir @ ''/'' @ bottomImageFilename2
     in
     io_bind (imreadExceptionOnFail_color bottomImagePath) (\<lambda>bottomImage.
     io_bind (imreadExceptionOnFail_color bottomImagePath2) (\<lambda>bottomImage2.
     let poleMaskPath = poleMaskDir @ ''/'' @ cameraId bottomCamModel @ ''.png'';
         poleMaskPath2 = poleMaskDir @ ''/'' @ cameraId bottomCamModel2 @ ''.png''
     in
     io_bind (imreadExceptionOnFail_color poleMaskPath) (\<lambda>bottomRedMask.
     io_bind (imreadExceptionOnFail_color poleMaskPath2) (\<lambda>bottomRedMask2.
     if rows bottomRedMask = 0 \<or> cols bottomRedMask = 0 \<or>
        rows bottomRedMask2 = 0 \<or> cols bottomRedMask2 = 0
     then io_throw (VrCamException
            (''missing or bad pole mask:'' @ poleMaskPath @ '','' @ poleMaskPath2))
     else io_return (bottomCamModel, bottomCamModel2, bottomImage, bottomImage2,
                     bottomRedMask, bottomRedMask2)))))))"

text \<open>
  Lines 66 to 82: the working images. Both get an alpha channel, the circle cut, the
  mask cut and the feathering; then the second one is flipped when its camera has
  \<^verbatim>\<open>flip180\<close>. \<open>masked\<close> is the value of lines 66 to 77 for one image.
\<close>

definition masked ::
  "collaborators \<Rightarrow> int \<Rightarrow> CameraMetadata \<Rightarrow> Vec3b mat \<Rightarrow> Vec3b mat \<Rightarrow> Vec4b mat" where
  "masked env alphaFeatherSize cam img redMask =
     featherAlphaChannel env
       (cutRedMaskOutOfAlphaChannel env
          (circleAlphaCut env (cvtColor_BGR2BGRA img) (usablePixelsRadius cam)) redMask)
       alphaFeatherSize"

definition make_working ::
  "collaborators \<Rightarrow> int \<Rightarrow> CameraMetadata \<Rightarrow> CameraMetadata \<Rightarrow>
   Vec3b mat \<Rightarrow> Vec3b mat \<Rightarrow> Vec3b mat \<Rightarrow> Vec3b mat \<Rightarrow> (Vec4b mat \<times> Vec4b mat) io" where
  "make_working env alphaFeatherSize bottomCamModel bottomCamModel2
       raw raw2 bottomRedMask bottomRedMask2 =
     io_bind (step (Call_cvtColor Primary) (cvtColor_BGR2BGRA raw)) (\<lambda>a.
     io_bind (step (Call_cvtColor Secondary) (cvtColor_BGR2BGRA raw2)) (\<lambda>a2.
     io_bind (step (Call_circleAlphaCut Primary)
                (circleAlphaCut env a (usablePixelsRadius bottomCamModel))) (\<lambda>b.
     io_bind (step (Call_circleAlphaCut Secondary)
                (circleAlphaCut env a2 (usablePixelsRadius bottomCamModel2))) (\<lambda>b2.
     io_bind (step (Call_cutRedMaskOutOfAlphaChannel Primary)
                (cutRedMaskOutOfAlphaChannel env b bottomRedMask)) (\<lambda>c.
     io_bind (step (Call_cutRedMaskOutOfAlphaChannel Secondary)
                (cutRedMaskOutOfAlphaChannel env b2 bottomRedMask2)) (\<lambda>c2.
     io_bind (step (Call_featherAlphaChannel Primary)
                (featherAlphaChannel env c alphaFeatherSize)) (\<lambda>bottomImage.
     io_bind (step (Call_featherAlphaChannel Secondary)
                (featherAlphaChannel env c2 alphaFeatherSize)) (\<lambda>d2.
     io_bind (if flip180 bottomCamModel2 then step (Call_flip Secondary) (flip_both d2)
              else io_return d2) (\<lambda>bottomImage2.
     io_return (bottomImage, bottomImage2))))))))))"

text \<open>Lines 86 to 98: the previous frame's flow and working images, unless the
  directory is \<^verbatim>\<open>"NONE"\<close>.\<close>

definition read_previous :: "string \<Rightarrow> (Point2f mat \<times> Mat \<times> Mat) io" where
  "read_previous prevFrameDataDir =
     (if prevFrameDataDir \<noteq> ''NONE'' then
        io_bind (readFlowFromFile (prevFrameDataDir @ ''/flow/flow_bottom_secondary.bin''))
          (\<lambda>prevFrameBottomPoleRemovalFlow.
        io_bind (imreadExceptionOnFail_unchanged
                   (prevFrameDataDir @ ''/flow_images/bottomImage.png'')) (\<lambda>prevBottomImage.
        io_bind (imreadExceptionOnFail_unchanged
                   (prevFrameDataDir @ ''/flow_images/bottomImage2.png'')) (\<lambda>prevBottomImage2.
        io_return (prevFrameBottomPoleRemovalFlow, prevBottomImage, prevBottomImage2))))
      else io_return ([], Mat0, Mat0))"

text \<open>Lines 100 to 117: the engine, then the data saved for the next frame.\<close>

definition estimate_flow ::
  "collaborators \<Rightarrow> string \<Rightarrow> Vec4b mat \<Rightarrow> Vec4b mat \<Rightarrow> Point2f mat \<Rightarrow> Mat \<Rightarrow> Mat \<Rightarrow>
   Point2f mat io" where
  "estimate_flow env flowAlgName bottomImage bottomImage2 prevFlow prevBottomImage prevBottomImage2 =
     io_bind (call_makeOpticalFlowByName env flowAlgName) (\<lambda>flowAlg.
     computeOpticalFlow flowAlg bottomImage bottomImage2 prevFlow prevBottomImage
       prevBottomImage2 DOWN)"

definition save_for_next_frame ::
  "bool \<Rightarrow> string \<Rightarrow> Point2f mat \<Rightarrow> Vec4b mat \<Rightarrow> Vec4b mat \<Rightarrow> unit io" where
  "save_for_next_frame saveFlowDataForNextFrame outputDataDir flow bottomImage bottomImage2 =
     io_when saveFlowDataForNextFrame
       (io_bind (saveFlowToFile flow (outputDataDir @ ''/flow/flow_bottom_secondary.bin'')) (\<lambda>_.
        io_bind (imwriteExceptionOnFail (outputDataDir @ ''/flow_images/bottomImage.png'')
                   bottomImage) (\<lambda>_.
        imwriteExceptionOnFail (outputDataDir @ ''/flow_images/bottomImage2.png'')
          bottomImage2)))"

text \<open>
  Lines 119 to 135: the assertion that the two working images have one size, the
  warp matrix and the remapping of the second image. The assertion is modelled as
  compiled in.
\<close>

definition warp_secondary ::
  "collaborators \<Rightarrow> Vec4b mat \<Rightarrow> Vec4b mat \<Rightarrow> Point2f mat \<Rightarrow> Vec4b mat io" where
  "warp_secondary env bottomImage bottomImage2 flow =
     io_bind (emit Assert_same_size) (\<lambda>_.
     if \<not> same_size bottomImage bottomImage2 then io_throw AssertionFailed
     else
       io_bind (step Loop_warpMat
                  (warp_loop flow (new_warpMat (rows bottomImage) (cols bottomImage)))) (\<lambda>warpMat.
       step (Call_remap CV_INTER_CUBIC BORDER_CONSTANT)
         (remap env bottomImage2 warpMat CV_INTER_CUBIC BORDER_CONSTANT)))"

text \<open>Lines 137 to 141: the first three debug images.\<close>

definition save_debug_images ::
  "bool \<Rightarrow> string \<Rightarrow> Vec4b mat \<Rightarrow> Vec4b mat \<Rightarrow> Vec4b mat \<Rightarrow> unit io" where
  "save_debug_images saveDebugImages outputDataDir bottomImage bottomImage2 warpedBottomImage2 =
     io_when saveDebugImages
       (io_bind (imwriteExceptionOnFail (outputDataDir @ ''/bottomImage.png'') bottomImage) (\<lambda>_.
        io_bind (imwriteExceptionOnFail (outputDataDir @ ''/bottomImage2.png'') bottomImage2) (\<lambda>_.
        imwriteExceptionOnFail (outputDataDir @ ''/bottomWarp2.png'') warpedBottomImage2)))"

text \<open>
  Lines 143 to 176: the colour model, the compositing loop, and the alpha channel
  made again. \<open>recut\<close> is the value of lines 175 and 176.
\<close>

definition recut :: "collaborators \<Rightarrow> int \<Rightarrow> CameraMetadata \<Rightarrow> Vec4b mat \<Rightarrow> Vec4b mat" where
  "recut env alphaFeatherSize cam img =
     featherAlphaChannel env (circleAlphaCut env img (usablePixelsRadius cam)) alphaFeatherSize"

definition composite ::
  "collaborators \<Rightarrow> int \<Rightarrow> CameraMetadata \<Rightarrow> Vec4b mat \<Rightarrow> Vec4b mat \<Rightarrow> Vec4b mat io" where
  "composite env alphaFeatherSize bottomCamModel bottomImage warpedBottomImage2 =
     io_bind (step Call_buildColorAdjustmentModel
                (buildColorAdjustmentModel env bottomImage warpedBottomImage2)) (\<lambda>colorAdjustModel.
     io_bind (step Call_applyColorAdjustmentModel
                (applyColorAdjustmentModel env warpedBottomImage2 colorAdjustModel))
       (\<lambda>adjustedBottomImage2.
     io_bind (step Loop_combine (combine_loop adjustedBottomImage2 bottomImage)) (\<lambda>combined.
     io_bind (step (Call_circleAlphaCut Primary)
                (circleAlphaCut env combined (usablePixelsRadius bottomCamModel))) (\<lambda>cut.
     step (Call_featherAlphaChannel Primary) (featherAlphaChannel env cut alphaFeatherSize)))))"

text \<open>Lines 178 to 180: the last debug image.\<close>

definition save_combined :: "bool \<Rightarrow> string \<Rightarrow> Vec4b mat \<Rightarrow> unit io" where
  "save_combined saveDebugImages outputDataDir bottomImage =
     io_when saveDebugImages
       (imwriteExceptionOnFail (outputDataDir @ ''/_bottomCombined.png'') bottomImage)"

text \<open>
  The whole function. Its two output parameters, \<^verbatim>\<open>bottomCamModel\<close> and
  \<^verbatim>\<open>bottomImage\<close>, are the value it returns.
\<close>

definition combineBottomImagesWithPoleRemoval ::
  "collaborators \<Rightarrow> string \<Rightarrow> string \<Rightarrow> string \<Rightarrow> string \<Rightarrow> bool \<Rightarrow> bool \<Rightarrow> string \<Rightarrow> int \<Rightarrow>
   CameraMetadata list \<Rightarrow> (CameraMetadata \<times> Vec4b mat) io" where
  "combineBottomImagesWithPoleRemoval env imagesDir poleMaskDir prevFrameDataDir outputDataDir
       saveDebugImages saveFlowDataForNextFrame flowAlgName alphaFeatherSize camModelArrayWithTop =
     io_bind (load_inputs env imagesDir poleMaskDir camModelArrayWithTop)
       (\<lambda>(bottomCamModel, bottomCamModel2, raw, raw2, bottomRedMask, bottomRedMask2).
     io_bind (make_working env alphaFeatherSize bottomCamModel bottomCamModel2
                raw raw2 bottomRedMask bottomRedMask2) (\<lambda>(bottomImage, bottomImage2).
     io_bind (read_previous prevFrameDataDir)
       (\<lambda>(prevFrameBottomPoleRemovalFlow, prevBottomImage, prevBottomImage2).
     io_bind (estimate_flow env flowAlgName bottomImage bottomImage2
                prevFrameBottomPoleRemovalFlow prevBottomImage prevBottomImage2) (\<lambda>flow.
     io_bind (save_for_next_frame saveFlowDataForNextFrame outputDataDir flow
                bottomImage bottomImage2) (\<lambda>_.
     io_bind (warp_secondary env bottomImage bottomImage2 flow) (\<lambda>warpedBottomImage2.
     io_bind (save_debug_images saveDebugImages outputDataDir bottomImage bottomImage2
                warpedBottomImage2) (\<lambda>_.
     io_bind (composite env alphaFeatherSize bottomCamModel bottomImage warpedBottomImage2)
       (\<lambda>combined.
     io_bind (save_combined saveDebugImages outputDataDir combined) (\<lambda>_.
     io_return (bottomCamModel, combined))))))))))"

section \<open>The values and the calls of a run\<close>

text \<open>
  The images the function computes on the way, as functions of what it has read:
  the second working image (lines 66 to 82), the warped second image (lines 121 to
  135) and the combined image (lines 143 to 176).
\<close>

definition flipped_if :: "bool \<Rightarrow> 'a mat \<Rightarrow> 'a mat" where
  "flipped_if c m = (if c then flip_both m else m)"

definition working_secondary ::
  "collaborators \<Rightarrow> int \<Rightarrow> CameraMetadata \<Rightarrow> Vec3b mat \<Rightarrow> Vec3b mat \<Rightarrow> Vec4b mat" where
  "working_secondary env alphaFeatherSize cam2 raw2 redMask2 =
     flipped_if (flip180 cam2) (masked env alphaFeatherSize cam2 raw2 redMask2)"

definition warped :: "collaborators \<Rightarrow> Vec4b mat \<Rightarrow> Vec4b mat \<Rightarrow> Point2f mat \<Rightarrow> Vec4b mat" where
  "warped env bottomImage bottomImage2 flow =
     remap env bottomImage2 (warp_loop flow (new_warpMat (rows bottomImage) (cols bottomImage)))
       CV_INTER_CUBIC BORDER_CONSTANT"

definition combined ::
  "collaborators \<Rightarrow> int \<Rightarrow> CameraMetadata \<Rightarrow> Vec4b mat \<Rightarrow> Vec4b mat \<Rightarrow> Vec4b mat" where
  "combined env alphaFeatherSize cam bottomImage warpedBottomImage2 =
     recut env alphaFeatherSize cam
       (combine_loop
          (applyColorAdjustmentModel env warpedBottomImage2
             (buildColorAdjustmentModel env bottomImage warpedBottomImage2))
          bottomImage)"

text \<open>
  The calls of each part of the function, in program order, when the part runs to its
  end; the files a part has written then; and what it means that the inputs have been
  loaded (lines 45 to 63 raise nothing) and that the previous frame's data are what
  lines 86 to 98 pass on.
\<close>

definition load_trace :: "string \<Rightarrow> string \<Rightarrow> CameraMetadata \<Rightarrow> CameraMetadata \<Rightarrow> event list" where
  "load_trace imagesDir poleMaskDir cam cam2 =
     [Call_getBottomCamModel Primary, Call_getBottomCamModel Secondary,
      Call_imread (imagesDir @ ''/'' @ cameraId cam @ ''.png'') 1,
      Call_imread (imagesDir @ ''/'' @ cameraId cam2 @ ''.png'') 1,
      Call_imread (poleMaskDir @ ''/'' @ cameraId cam @ ''.png'') 1,
      Call_imread (poleMaskDir @ ''/'' @ cameraId cam2 @ ''.png'') 1]"

definition working_trace :: "CameraMetadata \<Rightarrow> event list" where
  "working_trace cam2 =
     [Call_cvtColor Primary, Call_cvtColor Secondary,
      Call_circleAlphaCut Primary, Call_circleAlphaCut Secondary,
      Call_cutRedMaskOutOfAlphaChannel Primary, Call_cutRedMaskOutOfAlphaChannel Secondary,
      Call_featherAlphaChannel Primary, Call_featherAlphaChannel Secondary] @
     (if flip180 cam2 then [Call_flip Secondary] else [])"

definition previous_trace :: "string \<Rightarrow> event list" where
  "previous_trace prevFrameDataDir =
     (if prevFrameDataDir \<noteq> ''NONE'' then
        [Call_readFlowFromFile (prevFrameDataDir @ ''/flow/flow_bottom_secondary.bin''),
         Call_imread (prevFrameDataDir @ ''/flow_images/bottomImage.png'') (- 1),
         Call_imread (prevFrameDataDir @ ''/flow_images/bottomImage2.png'') (- 1)]
      else [])"

definition seed_trace :: "bool \<Rightarrow> string \<Rightarrow> Point2f mat \<Rightarrow> Vec4b mat \<Rightarrow> Vec4b mat \<Rightarrow> event list" where
  "seed_trace saveFlowDataForNextFrame outputDataDir flow bottomImage bottomImage2 =
     (if saveFlowDataForNextFrame then
        [Call_saveFlowToFile (outputDataDir @ ''/flow/flow_bottom_secondary.bin'') flow,
         Call_imwrite (outputDataDir @ ''/flow_images/bottomImage.png'') bottomImage,
         Call_imwrite (outputDataDir @ ''/flow_images/bottomImage2.png'') bottomImage2]
      else [])"

definition warp_trace :: "event list" where
  "warp_trace = [Assert_same_size, Loop_warpMat, Call_remap CV_INTER_CUBIC BORDER_CONSTANT]"

definition debug_trace :: "bool \<Rightarrow> string \<Rightarrow> Vec4b mat \<Rightarrow> Vec4b mat \<Rightarrow> Vec4b mat \<Rightarrow> event list" where
  "debug_trace saveDebugImages outputDataDir bottomImage bottomImage2 warpedBottomImage2 =
     (if saveDebugImages then
        [Call_imwrite (outputDataDir @ ''/bottomImage.png'') bottomImage,
         Call_imwrite (outputDataDir @ ''/bottomImage2.png'') bottomImage2,
         Call_imwrite (outputDataDir @ ''/bottomWarp2.png'') warpedBottomImage2]
      else [])"

definition composite_trace :: "event list" where
  "composite_trace =
     [Call_buildColorAdjustmentModel, Call_applyColorAdjustmentModel, Loop_combine,
      Call_circleAlphaCut Primary, Call_featherAlphaChannel Primary]"

definition combined_trace :: "bool \<Rightarrow> string \<Rightarrow> Vec4b mat \<Rightarrow> event list" where
  "combined_trace saveDebugImages outputDataDir bottomImage =
     (if saveDebugImages then [Call_imwrite (outputDataDir @ ''/_bottomCombined.png'') bottomImage]
      else [])"

definition previous_frame_data ::
  "world \<Rightarrow> string \<Rightarrow> Point2f mat \<Rightarrow> Mat \<Rightarrow> Mat \<Rightarrow> bool" where
  "previous_frame_data w prevFrameDataDir prevFlow prevBottomImage prevBottomImage2 =
     (if prevFrameDataDir \<noteq> ''NONE'' then
        decode_flow (files w (prevFrameDataDir @ ''/flow/flow_bottom_secondary.bin'')) = Some prevFlow
        \<and> decode_unchanged (files w (prevFrameDataDir @ ''/flow_images/bottomImage.png''))
            = Some prevBottomImage
        \<and> decode_unchanged (files w (prevFrameDataDir @ ''/flow_images/bottomImage2.png''))
            = Some prevBottomImage2
      else prevFlow = [] \<and> prevBottomImage = Mat0 \<and> prevBottomImage2 = Mat0)"

definition inputs_loaded ::
  "collaborators \<Rightarrow> world \<Rightarrow> string \<Rightarrow> string \<Rightarrow> CameraMetadata list \<Rightarrow>
   CameraMetadata \<Rightarrow> CameraMetadata \<Rightarrow> Vec3b mat \<Rightarrow> Vec3b mat \<Rightarrow> Vec3b mat \<Rightarrow> Vec3b mat \<Rightarrow> bool" where
  "inputs_loaded env w imagesDir poleMaskDir cams cam cam2 raw raw2 redMask redMask2 =
     (getBottomCamModel env cams = Some cam
      \<and> getBottomCamModel2 env cams = Some cam2
      \<and> decode_color (files w (imagesDir @ ''/'' @ cameraId cam @ ''.png'')) = Some raw
      \<and> decode_color (files w (imagesDir @ ''/'' @ cameraId cam2 @ ''.png'')) = Some raw2
      \<and> decode_color (files w (poleMaskDir @ ''/'' @ cameraId cam @ ''.png'')) = Some redMask
      \<and> decode_color (files w (poleMaskDir @ ''/'' @ cameraId cam2 @ ''.png'')) = Some redMask2
      \<and> rows redMask \<noteq> 0 \<and> cols redMask \<noteq> 0 \<and> rows redMask2 \<noteq> 0 \<and> cols redMask2 \<noteq> 0)"

definition seed_files ::
  "bool \<Rightarrow> string \<Rightarrow> Point2f mat \<Rightarrow> Vec4b mat \<Rightarrow> Vec4b mat \<Rightarrow> (string \<Rightarrow> Mat option) \<Rightarrow> (string \<Rightarrow> Mat option)" where
  "seed_files saveFlowDataForNextFrame outputDataDir flow bottomImage bottomImage2 F =
     (if saveFlowDataForNextFrame then
        F(outputDataDir @ ''/flow/flow_bottom_secondary.bin'' \<mapsto> Mat32FC2 flow,
          outputDataDir @ ''/flow_images/bottomImage.png'' \<mapsto> Mat8UC4 bottomImage,
          outputDataDir @ ''/flow_images/bottomImage2.png'' \<mapsto> Mat8UC4 bottomImage2)
      else F)"

definition debug_files ::
  "bool \<Rightarrow> string \<Rightarrow> Vec4b mat \<Rightarrow> Vec4b mat \<Rightarrow> Vec4b mat \<Rightarrow> (string \<Rightarrow> Mat option) \<Rightarrow> (string \<Rightarrow> Mat option)" where
  "debug_files saveDebugImages outputDataDir bottomImage bottomImage2 warpedBottomImage2 F =
     (if saveDebugImages then
        F(outputDataDir @ ''/bottomImage.png'' \<mapsto> Mat8UC4 bottomImage,
          outputDataDir @ ''/bottomImage2.png'' \<mapsto> Mat8UC4 bottomImage2,
          outputDataDir @ ''/bottomWarp2.png'' \<mapsto> Mat8UC4 warpedBottomImage2)
      else F)"

definition combined_files ::
  "bool \<Rightarrow> string \<Rightarrow> Vec4b mat \<Rightarrow> (string \<Rightarrow> Mat option) \<Rightarrow> (string \<Rightarrow> Mat option)" where
  "combined_files saveDebugImages outputDataDir bottomImage F =
     (if saveDebugImages then F(outputDataDir @ ''/_bottomCombined.png'' \<mapsto> Mat8UC4 bottomImage)
      else F)"

definition engine_trace ::
  "string \<Rightarrow> Vec4b mat \<Rightarrow> Vec4b mat \<Rightarrow> Point2f mat \<Rightarrow> Mat \<Rightarrow> Mat \<Rightarrow> event list" where
  "engine_trace flowAlgName bottomImage bottomImage2 prevFlow prevBottomImage prevBottomImage2 =
     [Call_makeOpticalFlowByName flowAlgName,
      Call_computeOpticalFlow bottomImage bottomImage2 prevFlow prevBottomImage prevBottomImage2 DOWN]"

text \<open>
  The calls that compute on pixels; the failures the specification calls
  MissingResourceError (an image or mask that is unreadable or empty: the exception of
  line 61 and a failed \<^verbatim>\<open>imreadExceptionOnFail\<close>); and a pole mask that is
  absent or has zero extent.
\<close>

fun is_pixel_operation :: "event \<Rightarrow> bool" where
  "is_pixel_operation (Call_cvtColor c) = True"
| "is_pixel_operation (Call_circleAlphaCut c) = True"
| "is_pixel_operation (Call_cutRedMaskOutOfAlphaChannel c) = True"
| "is_pixel_operation (Call_featherAlphaChannel c) = True"
| "is_pixel_operation (Call_flip c) = True"
| "is_pixel_operation Loop_warpMat = True"
| "is_pixel_operation (Call_remap a b) = True"
| "is_pixel_operation Call_buildColorAdjustmentModel = True"
| "is_pixel_operation Call_applyColorAdjustmentModel = True"
| "is_pixel_operation Loop_combine = True"
| "is_pixel_operation e = False"

fun is_missing_resource :: "error \<Rightarrow> bool" where
  "is_missing_resource (VrCamException msg) = True"
| "is_missing_resource (ImreadFailed path) = True"
| "is_missing_resource e = False"

definition mask_unusable :: "world \<Rightarrow> string \<Rightarrow> bool" where
  "mask_unusable w path =
     (case decode_color (files w path) of None \<Rightarrow> True | Some m \<Rightarrow> rows m = 0 \<or> cols m = 0)"

text \<open>The events a run has added to those of the world it started in.\<close>

definition new_events :: "world \<Rightarrow> world \<Rightarrow> event list" where
  "new_events w w' = drop (length (events w)) (events w')"

section \<open>An example rig\<close>

text \<open>
  Two cameras, \<open>cam15\<close> and \<open>cam16\<close> (the second one mounted upside down), with
  stand-ins for the collaborators: every pixel is inside the usable circle, a mask
  pixel marks the pole when its red channel is not zero, feathering leaves alpha as it
  is, the only engine is \<open>pixflow\<close> and returns the zero flow, interpolation takes
  the pixel at the rounded-down position, and the colour model changes nothing.
  \<open>example_disk\<close> holds two images of one row and two columns;
  \<open>mismatched_disk\<close> holds a second image of one column only;
  \<open>seeded_disk\<close> holds, besides, the flow and the working images of a previous
  frame under \<open>prev\<close>; \<open>bad_mask_disk\<close> holds a second pole mask with no rows.
\<close>

definition example_cam :: CameraMetadata where
  "example_cam = \<lparr>cameraId = ''cam15'', usablePixelsRadius = Finite 100, flip180 = False\<rparr>"

definition example_cam2 :: CameraMetadata where
  "example_cam2 = \<lparr>cameraId = ''cam16'', usablePixelsRadius = Finite 100, flip180 = True\<rparr>"

definition zero_flow :: engine where
  "zero_flow I0 I1 prevFlow prevI0 prevI1 hint = map (map (\<lambda>_. Point2f (Finite 0) (Finite 0))) I0"

definition nearest :: "(int \<Rightarrow> int \<Rightarrow> Vec4b) \<Rightarrow> Point2f \<Rightarrow> Vec4b" where
  "nearest fetch pt =
     (case pt of Point2f (Finite x) (Finite y) \<Rightarrow> fetch \<lfloor>x\<rfloor> \<lfloor>y\<rfloor> | _ \<Rightarrow> Vec4b 0 0 0 0)"

definition example_env :: collaborators where
  "example_env =
     \<lparr>getBottomCamModel = (\<lambda>cs. case cs of c # _ \<Rightarrow> Some c | _ \<Rightarrow> None),
      getBottomCamModel2 = (\<lambda>cs. case cs of _ # c # _ \<Rightarrow> Some c | _ \<Rightarrow> None),
      inUsableCircle = (\<lambda>h w r y x. True),
      isPoleMarked = (\<lambda>p. px2 p \<noteq> 0),
      smoothedAlpha = (\<lambda>size plane y x. mat_at plane y x),
      makeOpticalFlowByName = (\<lambda>name. if name = ''pixflow'' then Some zero_flow else None),
      interpolate = (\<lambda>interp. nearest),
      buildColorAdjustmentModel = (\<lambda>a b. []),
      adjustChannel = (\<lambda>model c v. v)\<rparr>"

definition example_disk :: world where
  "example_disk =
     \<lparr>files = [''img/cam15.png'' \<mapsto> Mat8UC3 [[Vec3b 10 20 30, Vec3b 40 50 60]],
               ''img/cam16.png'' \<mapsto> Mat8UC3 [[Vec3b 1 2 3, Vec3b 4 5 6]],
               ''mask/cam15.png'' \<mapsto> Mat8UC3 [[Vec3b 0 0 255, Vec3b 0 0 0]],
               ''mask/cam16.png'' \<mapsto> Mat8UC3 [[Vec3b 0 0 255, Vec3b 0 0 0]]],
      write_fails = (\<lambda>path. False),
      events = []\<rparr>"


definition seeded_disk :: world where
  "seeded_disk =
     \<lparr>files = [''img/cam15.png'' \<mapsto> Mat8UC3 [[Vec3b 10 20 30, Vec3b 40 50 60]],
               ''img/cam16.png'' \<mapsto> Mat8UC3 [[Vec3b 1 2 3, Vec3b 4 5 6]],
               ''mask/cam15.png'' \<mapsto> Mat8UC3 [[Vec3b 0 0 255, Vec3b 0 0 0]],
               ''mask/cam16.png'' \<mapsto> Mat8UC3 [[Vec3b 0 0 255, Vec3b 0 0 0]],
               ''prev/flow/flow_bottom_secondary.bin'' \<mapsto>
                 Mat32FC2 [[Point2f (Finite 1) (Finite 0), Point2f (Finite 1) (Finite 0)]],
               ''prev/flow_images/bottomImage.png'' \<mapsto>
                 Mat8UC4 [[Vec4b 9 9 9 255, Vec4b 8 8 8 255]],
               ''prev/flow_images/bottomImage2.png'' \<mapsto>
                 Mat8UC4 [[Vec4b 7 7 7 255, Vec4b 6 6 6 255]]],
      write_fails = (\<lambda>path. False),
      events = []\<rparr>"

definition bad_mask_disk :: world where
  "bad_mask_disk =
     \<lparr>files = [''img/cam15.png'' \<mapsto> Mat8UC3 [[Vec3b 10 20 30, Vec3b 40 50 60]],
               ''img/cam16.png'' \<mapsto> Mat8UC3 [[Vec3b 1 2 3, Vec3b 4 5 6]],
               ''mask/cam15.png'' \<mapsto> Mat8UC3 [[Vec3b 0 0 255, Vec3b 0 0 0]],
               ''mask/cam16.png'' \<mapsto> Mat8UC3 []],
      write_fails = (\<lambda>path. False),
      events = []\<rparr>"

definition example_run :: "string \<Rightarrow> bool \<Rightarrow> bool \<Rightarrow> world \<Rightarrow> (error + CameraMetadata \<times> Vec4b mat) \<times> world" where
  "example_run prevFrameDataDir saveDebugImages saveFlowDataForNextFrame w =
     combineBottomImagesWithPoleRemoval example_env ''img'' ''mask'' prevFrameDataDir ''out''
       saveDebugImages saveFlowDataForNextFrame ''pixflow'' 5 [example_cam, example_cam2] w"

section \<open>Facts about matrices\<close>

lemma rows_set_at: "rows (set_at m y x v) = rows m"
  by (simp add: rows_def set_at_def)

lemma rect_row_length: "rect m \<Longrightarrow> y < rows m \<Longrightarrow> length (m ! y) = cols m"
  by (simp add: rect_def rows_def list_all_length)

lemma cols_nth0: "m \<noteq> [] \<Longrightarrow> cols m = length (m ! 0)"
  by (cases m) (simp_all add: cols_def)

lemma cols_set_at: "cols (set_at m y x v) = cols m"
proof (cases m)
  case Nil
  then show ?thesis by (simp add: set_at_def)
next
  case (Cons r rs)
  then show ?thesis by (cases y) (simp_all add: set_at_def cols_def)
qed

lemma rect_set_at: "rect m \<Longrightarrow> rect (set_at m y x v)"
proof (cases "y < length m")
  case True
  assume "rect m"
  then show ?thesis
    unfolding rect_def cols_set_at
    using True by (auto simp: set_at_def list_all_length nth_list_update)
next
  case False
  assume "rect m"
  then show ?thesis
    using False by (simp add: set_at_def list_update_beyond)
qed

lemma at_set_at:
  "y < rows m \<Longrightarrow> x < length (m ! y) \<Longrightarrow>
   mat_at (set_at m y x v) y' x' = (if y' = y \<and> x' = x then v else mat_at m y' x')"
  by (auto simp: mat_at_def set_at_def rows_def nth_list_update)

section \<open>Facts about the compositing loop\<close>

lemma combine_at_rows: "rows (combine_at adj y x img) = rows img"
  by (simp add: combine_at_def Let_def rows_set_at)

lemma combine_at_cols: "cols (combine_at adj y x img) = cols img"
  by (simp add: combine_at_def Let_def cols_set_at)

lemma combine_at_rect: "rect img \<Longrightarrow> rect (combine_at adj y x img)"
  by (simp add: combine_at_def Let_def rect_set_at)

lemma combine_at_pixel:
  assumes "rect img" "y < rows img" "x < cols img"
  shows "mat_at (combine_at adj y x img) y' x' =
    (if y' = y \<and> x' = x then blend_px (mat_at img y x) (mat_at adj y x) else mat_at img y' x')"
proof -
  have len: "x < length (img ! y)"
    using assms by (simp add: rect_row_length)
  show ?thesis
    using assms(2) len
    by (simp add: combine_at_def blend_px_def normalized_alpha_def mix_def Let_def at_set_at)
qed

text \<open>The inner loop after its first \<open>n\<close> iterations.\<close>

lemma combine_cols_prefix:
  assumes "rect img" "y < rows img" "n \<le> cols img"
  shows "rect (fold (\<lambda>x. combine_at adj y x) [0..<n] img)
     \<and> rows (fold (\<lambda>x. combine_at adj y x) [0..<n] img) = rows img
     \<and> cols (fold (\<lambda>x. combine_at adj y x) [0..<n] img) = cols img
     \<and> (\<forall>y' x'. mat_at (fold (\<lambda>x. combine_at adj y x) [0..<n] img) y' x' =
          (if y' = y \<and> x' < n then blend_px (mat_at img y x') (mat_at adj y x') else mat_at img y' x'))"
  using assms(3)
proof (induction n)
  case 0
  then show ?case using assms(1) by simp
next
  case (Suc n)
  let ?im = "fold (\<lambda>x. combine_at adj y x) [0..<n] img"
  have ih: "rect ?im" "rows ?im = rows img" "cols ?im = cols img"
    "\<And>y' x'. mat_at ?im y' x' =
        (if y' = y \<and> x' < n then blend_px (mat_at img y x') (mat_at adj y x') else mat_at img y' x')"
    using Suc by simp_all
  have step: "fold (\<lambda>x. combine_at adj y x) [0..<Suc n] img = combine_at adj y n ?im"
    by simp
  have px: "\<And>y' x'. mat_at (combine_at adj y n ?im) y' x' =
      (if y' = y \<and> x' = n then blend_px (mat_at ?im y n) (mat_at adj y n) else mat_at ?im y' x')"
    using combine_at_pixel [of ?im y n adj] ih(1,2,3) assms(2) Suc.prems by simp
  show ?case
    unfolding step
    using ih(1)
    by (auto simp: combine_at_rect combine_at_rows combine_at_cols ih(2,3) px ih(4))
qed

lemma combine_row_props:
  assumes "rect img" "y < rows img"
  shows "rect (combine_row adj y img)"
    and "rows (combine_row adj y img) = rows img"
    and "cols (combine_row adj y img) = cols img"
    and "mat_at (combine_row adj y img) y' x' =
          (if y' = y \<and> x' < cols img then blend_px (mat_at img y x') (mat_at adj y x') else mat_at img y' x')"
  using combine_cols_prefix [OF assms, of "cols img" adj]
  by (simp_all add: combine_row_def)

text \<open>The outer loop after its first \<open>m\<close> iterations.\<close>

lemma combine_rows_prefix:
  assumes "rect img" "m \<le> rows img"
  shows "rect (fold (\<lambda>y. combine_row adj y) [0..<m] img)
     \<and> rows (fold (\<lambda>y. combine_row adj y) [0..<m] img) = rows img
     \<and> cols (fold (\<lambda>y. combine_row adj y) [0..<m] img) = cols img
     \<and> (\<forall>y' x'. mat_at (fold (\<lambda>y. combine_row adj y) [0..<m] img) y' x' =
          (if y' < m \<and> x' < cols img then blend_px (mat_at img y' x') (mat_at adj y' x')
           else mat_at img y' x'))"
  using assms(2)
proof (induction m)
  case 0
  then show ?case using assms(1) by simp
next
  case (Suc m)
  let ?im = "fold (\<lambda>y. combine_row adj y) [0..<m] img"
  have ih: "rect ?im" "rows ?im = rows img" "cols ?im = cols img"
    "\<And>y' x'. mat_at ?im y' x' =
        (if y' < m \<and> x' < cols img then blend_px (mat_at img y' x') (mat_at adj y' x')
         else mat_at img y' x')"
    using Suc by simp_all
  have step: "fold (\<lambda>y. combine_row adj y) [0..<Suc m] img = combine_row adj m ?im"
    by simp
  have m: "m < rows ?im"
    using Suc.prems ih(2) by simp
  show ?case
    unfolding step
    using combine_row_props [OF ih(1) m, of adj]
    by (auto simp: ih)
qed

lemma combine_loop_props:
  assumes "rect img"
  shows "rect (combine_loop adj img)"
    and "rows (combine_loop adj img) = rows img"
    and "cols (combine_loop adj img) = cols img"
    and "mat_at (combine_loop adj img) y x =
          (if y < rows img \<and> x < cols img then blend_px (mat_at img y x) (mat_at adj y x)
           else mat_at img y x)"
  using combine_rows_prefix [OF assms, of "rows img" adj]
  by (simp_all add: combine_loop_def)

section \<open>Facts about the image operations\<close>

lemma rows_map_px: "rows (map_px f m) = rows m"
  by (simp add: map_px_def rows_def)

lemma row_map_px: "y < rows m \<Longrightarrow> map_px f m ! y = map (\<lambda>(x, p). f y x p) (enumerate 0 (m ! y))"
  by (simp add: map_px_def rows_def nth_enumerate_eq)

lemma cols_map_px: "cols (map_px f m) = cols m"
  by (cases m) (simp_all add: map_px_def cols_def)

lemma rect_map_px: "rect m \<Longrightarrow> rect (map_px f m)"
  unfolding rect_def cols_map_px
  by (auto simp: list_all_length map_px_def nth_enumerate_eq)

lemma mat_at_map_px:
  "y < rows m \<Longrightarrow> x < length (m ! y) \<Longrightarrow> mat_at (map_px f m) y x = f y x (mat_at m y x)"
  by (simp add: mat_at_def row_map_px nth_enumerate_eq)

lemma rows_map_map: "rows (map (map g) m) = rows m"
  by (simp add: rows_def)

lemma cols_map_map: "cols (map (map g) m) = cols m"
  by (cases m) (simp_all add: cols_def)

lemma rect_map_map: "rect m \<Longrightarrow> rect (map (map g) m)"
  unfolding rect_def cols_map_map by (auto simp: list_all_length)

lemma mat_at_map_map:
  "y < rows m \<Longrightarrow> x < length (m ! y) \<Longrightarrow> mat_at (map (map g) m) y x = g (mat_at m y x)"
  by (simp add: mat_at_def rows_def)

lemma rows_flip_both: "rows (flip_both m) = rows m"
  by (simp add: flip_both_def rows_def)

lemma cols_flip_both: "rect m \<Longrightarrow> cols (flip_both m) = cols m"
proof (cases "m = []")
  case True
  then show ?thesis by (simp add: flip_both_def)
next
  case False
  assume r: "rect m"
  have "flip_both m \<noteq> []" using False by (simp add: flip_both_def)
  then have "cols (flip_both m) = length (flip_both m ! 0)" by (rule cols_nth0)
  also have "\<dots> = length (m ! (length m - 1))"
    using False by (simp add: flip_both_def rev_nth)
  also have "\<dots> = cols m"
    using r False by (simp add: rect_row_length rows_def)
  finally show ?thesis .
qed

lemma rect_flip_both: "rect m \<Longrightarrow> rect (flip_both m)"
proof -
  assume r: "rect m"
  have "list_all (\<lambda>r. length r = cols m) (flip_both m)"
    using r by (auto simp: rect_def flip_both_def list_all_iff)
  then show ?thesis
    using cols_flip_both [OF r] by (simp add: rect_def)
qed

lemma mat_at_flip_both:
  assumes "rect m" "y < rows m" "x < cols m"
  shows "mat_at (flip_both m) y x = mat_at m (rows m - 1 - y) (cols m - 1 - x)"
proof -
  have y': "length m - Suc y < length m" using assms(2) by (simp add: rows_def)
  have len: "length (m ! (length m - Suc y)) = cols m"
    using assms(1) y' by (simp add: rect_row_length rows_def)
  show ?thesis
    using assms(2,3) len y'
    by (simp add: mat_at_def flip_both_def rows_def rev_nth)
qed

lemma same_size_refl: "same_size m m" by (simp add: same_size_def)

section \<open>Facts about single precision\<close>

lemma flt_irrefl: "\<not> flt a a"
  by (cases a) simp_all

lemma blend_px_spec: "blend_px p q = spec_blend p q"
  by (auto simp: blend_px_def spec_blend_def Let_def fgt_def flt_irrefl)

lemma round32_examples:
  "round32 0 = Finite 0" "round32 1 = Finite 1"
  "round32 (128 / 255) = Finite (8421505 / 16777216)"
  by code_simp+

lemma mix_example: "mix (Finite (8421505 / 16777216)) 100 200 = 149"
  by code_simp

section \<open>Facts about a run\<close>

lemma emit_run: "emit e w = (Inr (), w\<lparr>events := events w @ [e]\<rparr>)"
  by (simp add: emit_def)

lemma step_run: "step e v w = (Inr v, w\<lparr>events := events w @ [e]\<rparr>)"
  by (simp add: step_def io_bind_def emit_def io_return_def)

lemma io_bind_Inr: "m w = (Inr v, w') \<Longrightarrow> io_bind m f w = f v w'"
  by (simp add: io_bind_def)

lemma io_bind_Inl: "m w = (Inl e, w') \<Longrightarrow> io_bind m f w = (Inl e, w')"
  by (simp add: io_bind_def)

lemma imread_color_run:
  "imreadExceptionOnFail_color path w =
     (case decode_color (files w path) of
        Some m \<Rightarrow> (Inr m, w\<lparr>events := events w @ [Call_imread path 1]\<rparr>)
      | None \<Rightarrow> (Inl (ImreadFailed path), w\<lparr>events := events w @ [Call_imread path 1]\<rparr>))"
  by (simp add: imreadExceptionOnFail_color_def io_bind_def emit_def io_return_def io_throw_def
      split: option.splits)

lemma imread_unchanged_run:
  "imreadExceptionOnFail_unchanged path w =
     (case decode_unchanged (files w path) of
        Some m \<Rightarrow> (Inr m, w\<lparr>events := events w @ [Call_imread path (- 1)]\<rparr>)
      | None \<Rightarrow> (Inl (ImreadFailed path), w\<lparr>events := events w @ [Call_imread path (- 1)]\<rparr>))"
  by (simp add: imreadExceptionOnFail_unchanged_def io_bind_def emit_def io_return_def io_throw_def
      split: option.splits)

lemma readFlow_run:
  "readFlowFromFile path w =
     (case decode_flow (files w path) of
        Some m \<Rightarrow> (Inr m, w\<lparr>events := events w @ [Call_readFlowFromFile path]\<rparr>)
      | None \<Rightarrow> (Inl (ReadFlowFailed path), w\<lparr>events := events w @ [Call_readFlowFromFile path]\<rparr>))"
  by (simp add: readFlowFromFile_def io_bind_def emit_def io_return_def io_throw_def
      split: option.splits)

lemma imwrite_run:
  "imwriteExceptionOnFail path img w =
     (if write_fails w path
      then (Inl (ImwriteFailed path), w\<lparr>events := events w @ [Call_imwrite path img]\<rparr>)
      else (Inr (), w\<lparr>events := events w @ [Call_imwrite path img],
                        files := (files w)(path \<mapsto> Mat8UC4 img)\<rparr>))"
  by (simp add: imwriteExceptionOnFail_def io_bind_def emit_def io_return_def io_throw_def)

lemma saveFlow_run:
  "saveFlowToFile flow path w =
     (if write_fails w path
      then (Inl (SaveFlowFailed path), w\<lparr>events := events w @ [Call_saveFlowToFile path flow]\<rparr>)
      else (Inr (), w\<lparr>events := events w @ [Call_saveFlowToFile path flow],
                        files := (files w)(path \<mapsto> Mat32FC2 flow)\<rparr>))"
  by (simp add: saveFlowToFile_def io_bind_def emit_def io_return_def io_throw_def)

lemma make_working_run:
  "make_working env fs cam cam2 raw raw2 m m2 w =
     (Inr (masked env fs cam raw m, working_secondary env fs cam2 raw2 m2),
      w\<lparr>events := events w @
          working_trace cam2\<rparr>)"
  by (simp add: make_working_def step_run io_bind_def io_return_def masked_def
      working_secondary_def flipped_if_def working_trace_def)

lemma warp_secondary_run:
  "warp_secondary env img img2 flow w =
     (if same_size img img2
      then (Inr (warped env img img2 flow),
            w\<lparr>events := events w @ warp_trace\<rparr>)
      else (Inl AssertionFailed, w\<lparr>events := events w @ [Assert_same_size]\<rparr>))"
  by (simp add: warp_secondary_def step_run emit_run io_bind_def io_throw_def warped_def
      warp_trace_def)

lemma composite_run:
  "composite env fs cam img w2 w =
     (Inr (combined env fs cam img w2),
      w\<lparr>events := events w @ composite_trace\<rparr>)"
  by (simp add: composite_def step_run io_bind_def combined_def recut_def composite_trace_def)


lemmas call_defs = call_getBottomCamModel_def call_getBottomCamModel2_def
  call_makeOpticalFlowByName_def computeOpticalFlow_def io_when_def

lemma load_inputs_ok:
  "inputs_loaded env w imagesDir poleMaskDir cams cam cam2 raw raw2 redMask redMask2 \<Longrightarrow>
   load_inputs env imagesDir poleMaskDir cams w =
     (Inr (cam, cam2, raw, raw2, redMask, redMask2),
      w\<lparr>events := events w @ load_trace imagesDir poleMaskDir cam cam2\<rparr>)"
  by (simp add: inputs_loaded_def load_inputs_def call_defs io_bind_def emit_run io_return_def
      io_throw_def imread_color_run load_trace_def Let_def)

lemma load_inputs_Inr:
  assumes "load_inputs env imagesDir poleMaskDir cams w = (Inr (cam, cam2, raw, raw2, redMask, redMask2), w1)"
  shows "inputs_loaded env w imagesDir poleMaskDir cams cam cam2 raw raw2 redMask redMask2"
  using assms
  by (simp add: inputs_loaded_def load_inputs_def call_defs io_bind_def emit_run io_return_def
      io_throw_def imread_color_run load_trace_def Let_def split: option.splits if_splits)


lemma world_events_id: "w\<lparr>events := events w\<rparr> = w"
  by simp

lemma previous_frame_data_events [simp]:
  "previous_frame_data (w\<lparr>events := evs\<rparr>) prev pf p1 p2 = previous_frame_data w prev pf p1 p2"
  by (simp add: previous_frame_data_def)

lemma read_previous_cases [case_names ok failed]:
  obtains pf p1 p2 where "previous_frame_data w prev pf p1 p2"
      and "read_previous prev w = (Inr (pf, p1, p2), w\<lparr>events := events w @ previous_trace prev\<rparr>)"
  | e evs where "prev \<noteq> ''NONE''" and "evs \<noteq> []" and "prefix evs (previous_trace prev)"
      and "read_previous prev w = (Inl e, w\<lparr>events := events w @ evs\<rparr>)"
      and "\<And>pf p1 p2. \<not> previous_frame_data w prev pf p1 p2"
      and "e = ReadFlowFailed (prev @ ''/flow/flow_bottom_secondary.bin'')
           \<or> e = ImreadFailed (prev @ ''/flow_images/bottomImage.png'')
           \<or> e = ImreadFailed (prev @ ''/flow_images/bottomImage2.png'')"
proof (cases "prev = ''NONE''")
  case True
  then show ?thesis
    using that(1) [of "[]" Mat0 Mat0]
    by (simp add: read_previous_def previous_frame_data_def previous_trace_def io_return_def)
next
  case False
  let ?f = "decode_flow (files w (prev @ ''/flow/flow_bottom_secondary.bin''))"
  let ?a = "decode_unchanged (files w (prev @ ''/flow_images/bottomImage.png''))"
  let ?b = "decode_unchanged (files w (prev @ ''/flow_images/bottomImage2.png''))"
  show ?thesis
  proof (cases ?f)
    case None
    then show ?thesis
      using False that(2) [of "[Call_readFlowFromFile (prev @ ''/flow/flow_bottom_secondary.bin'')]"]
      by (simp add: read_previous_def previous_frame_data_def previous_trace_def io_bind_def
          readFlow_run)
  next
    case f: (Some pf)
    show ?thesis
    proof (cases ?a)
      case None
      then show ?thesis
        using False f that(2) [of "[Call_readFlowFromFile (prev @ ''/flow/flow_bottom_secondary.bin''),
            Call_imread (prev @ ''/flow_images/bottomImage.png'') (- 1)]"]
        by (simp add: read_previous_def previous_frame_data_def previous_trace_def io_bind_def
            readFlow_run imread_unchanged_run)
    next
      case a: (Some p1)
      show ?thesis
      proof (cases ?b)
        case None
        then show ?thesis
          using False f a that(2) [of "previous_trace prev"]
          by (simp add: read_previous_def previous_frame_data_def previous_trace_def io_bind_def
              readFlow_run imread_unchanged_run)
      next
        case b: (Some p2)
        then show ?thesis
          using False f a that(1) [of pf p1 p2]
          by (simp add: read_previous_def previous_frame_data_def previous_trace_def io_bind_def
              readFlow_run imread_unchanged_run io_return_def)
      qed
    qed
  qed
qed


lemma save_for_next_frame_cases [case_names ok failed]:
  obtains
    "save_for_next_frame flag out flow I0 I1 w =
       (Inr (), w\<lparr>files := seed_files flag out flow I0 I1 (files w),
                    events := events w @ seed_trace flag out flow I0 I1\<rparr>)"
  | e evs F where "flag" and "evs \<noteq> []" and "prefix evs (seed_trace flag out flow I0 I1)"
      and "save_for_next_frame flag out flow I0 I1 w = (Inl e, w\<lparr>files := F, events := events w @ evs\<rparr>)"
      and "write_fails w (out @ ''/flow/flow_bottom_secondary.bin'')
           \<or> write_fails w (out @ ''/flow_images/bottomImage.png'')
           \<or> write_fails w (out @ ''/flow_images/bottomImage2.png'')"
proof (cases flag)
  case False
  then show ?thesis
    using that(1)
    by (simp add: save_for_next_frame_def io_when_def io_return_def seed_files_def seed_trace_def)
next
  case True
  let ?p1 = "out @ ''/flow/flow_bottom_secondary.bin''"
  let ?p2 = "out @ ''/flow_images/bottomImage.png''"
  let ?p3 = "out @ ''/flow_images/bottomImage2.png''"
  show ?thesis
  proof (cases "write_fails w ?p1")
    case f1: True
    show ?thesis
      using True f1 that(2) [of "[Call_saveFlowToFile ?p1 flow]" _ "files w"]
      by (simp add: save_for_next_frame_def io_when_def io_bind_def saveFlow_run seed_trace_def)
  next
    case f1: False
    show ?thesis
    proof (cases "write_fails w ?p2")
      case f2: True
      show ?thesis
        using True f1 f2
          that(2) [of "[Call_saveFlowToFile ?p1 flow, Call_imwrite ?p2 I0]" _
                      "(files w)(?p1 \<mapsto> Mat32FC2 flow)"]
        by (simp add: save_for_next_frame_def io_when_def io_bind_def saveFlow_run imwrite_run
            seed_trace_def)
    next
      case f2: False
      show ?thesis
      proof (cases "write_fails w ?p3")
        case f3: True
        show ?thesis
          using True f1 f2 f3
            that(2) [of "seed_trace flag out flow I0 I1" _
                        "(files w)(?p1 \<mapsto> Mat32FC2 flow, ?p2 \<mapsto> Mat8UC4 I0)"]
          by (simp add: save_for_next_frame_def io_when_def io_bind_def saveFlow_run imwrite_run
              seed_trace_def)
      next
        case f3: False
        show ?thesis
          using True f1 f2 f3 that(1)
          by (simp add: save_for_next_frame_def io_when_def io_bind_def saveFlow_run imwrite_run
              seed_trace_def seed_files_def)
      qed
    qed
  qed
qed

lemma save_debug_images_cases [case_names ok failed]:
  obtains
    "save_debug_images flag out I0 I1 wp w =
       (Inr (), w\<lparr>files := debug_files flag out I0 I1 wp (files w),
                    events := events w @ debug_trace flag out I0 I1 wp\<rparr>)"
  | e evs F where "flag" and "evs \<noteq> []" and "prefix evs (debug_trace flag out I0 I1 wp)"
      and "save_debug_images flag out I0 I1 wp w = (Inl e, w\<lparr>files := F, events := events w @ evs\<rparr>)"
proof (cases flag)
  case False
  then show ?thesis
    using that(1)
    by (simp add: save_debug_images_def io_when_def io_return_def debug_files_def debug_trace_def)
next
  case True
  let ?p1 = "out @ ''/bottomImage.png''"
  let ?p2 = "out @ ''/bottomImage2.png''"
  let ?p3 = "out @ ''/bottomWarp2.png''"
  show ?thesis
  proof (cases "write_fails w ?p1")
    case f1: True
    show ?thesis
      using True f1 that(2) [of "[Call_imwrite ?p1 I0]" _ "files w"]
      by (simp add: save_debug_images_def io_when_def io_bind_def imwrite_run debug_trace_def)
  next
    case f1: False
    show ?thesis
    proof (cases "write_fails w ?p2")
      case f2: True
      show ?thesis
        using True f1 f2
          that(2) [of "[Call_imwrite ?p1 I0, Call_imwrite ?p2 I1]" _
                      "(files w)(?p1 \<mapsto> Mat8UC4 I0)"]
        by (simp add: save_debug_images_def io_when_def io_bind_def imwrite_run debug_trace_def)
    next
      case f2: False
      show ?thesis
      proof (cases "write_fails w ?p3")
        case f3: True
        show ?thesis
          using True f1 f2 f3
            that(2) [of "debug_trace flag out I0 I1 wp" _
                        "(files w)(?p1 \<mapsto> Mat8UC4 I0, ?p2 \<mapsto> Mat8UC4 I1)"]
          by (simp add: save_debug_images_def io_when_def io_bind_def imwrite_run debug_trace_def)
      next
        case f3: False
        show ?thesis
          using True f1 f2 f3 that(1)
          by (simp add: save_debug_images_def io_when_def io_bind_def imwrite_run
              debug_trace_def debug_files_def)
      qed
    qed
  qed
qed

lemma save_combined_cases [case_names ok failed]:
  obtains
    "save_combined flag out img w =
       (Inr (), w\<lparr>files := combined_files flag out img (files w),
                    events := events w @ combined_trace flag out img\<rparr>)"
  | "flag" and "write_fails w (out @ ''/_bottomCombined.png'')"
      and "save_combined flag out img w =
        (Inl (ImwriteFailed (out @ ''/_bottomCombined.png'')),
         w\<lparr>events := events w @ combined_trace flag out img\<rparr>)"
proof (cases "flag \<and> write_fails w (out @ ''/_bottomCombined.png'')")
  case True
  then show ?thesis
    using that(2)
    by (simp add: save_combined_def io_when_def imwrite_run combined_trace_def)
next
  case False
  then show ?thesis
    using that(1)
    by (auto simp: save_combined_def io_when_def imwrite_run combined_trace_def combined_files_def
        io_return_def)
qed


lemma estimate_flow_run:
  "estimate_flow env alg I0 I1 pf p1 p2 w =
     (case makeOpticalFlowByName env alg of
        None \<Rightarrow> (Inl (UnknownFlowAlgorithm alg),
                  w\<lparr>events := events w @ [Call_makeOpticalFlowByName alg]\<rparr>)
      | Some E \<Rightarrow> (Inr (E I0 I1 pf p1 p2 DOWN),
                    w\<lparr>events := events w @ engine_trace alg I0 I1 pf p1 p2\<rparr>))"
  by (simp add: estimate_flow_def call_defs io_bind_def emit_run step_run io_throw_def
      io_return_def engine_trace_def split: option.splits)

lemma after_load_cases
  [consumes 2, case_names previous_failed engine_unknown seed_failed assertion_failed
     debug_failed combined_failed success]:
  fixes env :: collaborators and fs :: int
    and cam cam2 :: CameraMetadata and raw raw2 m m2 :: "Vec3b mat" and i p :: string
  defines "I0 \<equiv> masked env fs cam raw m"
    and "I1 \<equiv> working_secondary env fs cam2 raw2 m2"
    and "T2 \<equiv> load_trace i p cam cam2 @ working_trace cam2"
  assumes loaded: "inputs_loaded env w i p cams cam cam2 raw raw2 m m2"
    and run: "combineBottomImagesWithPoleRemoval env i p prev out dbg seed alg fs cams w = (r, w')"
  obtains e evs where "prev \<noteq> ''NONE''" and "evs \<noteq> []" and "prefix evs (previous_trace prev)"
      and "\<And>pf p1 p2. \<not> previous_frame_data w prev pf p1 p2"
      and "e = ReadFlowFailed (prev @ ''/flow/flow_bottom_secondary.bin'')
           \<or> e = ImreadFailed (prev @ ''/flow_images/bottomImage.png'')
           \<or> e = ImreadFailed (prev @ ''/flow_images/bottomImage2.png'')"
      and "r = Inl e" and "w' = w\<lparr>events := events w @ T2 @ evs\<rparr>"
  | pf p1 p2 where "previous_frame_data w prev pf p1 p2"
      and "makeOpticalFlowByName env alg = None"
      and "r = Inl (UnknownFlowAlgorithm alg)"
      and "w' = w\<lparr>events := events w @ T2 @ previous_trace prev @ [Call_makeOpticalFlowByName alg]\<rparr>"
  | pf p1 p2 E e evs F where "previous_frame_data w prev pf p1 p2"
      and "makeOpticalFlowByName env alg = Some E"
      and "seed" and "evs \<noteq> []"
      and "prefix evs (seed_trace seed out (E I0 I1 pf p1 p2 DOWN) I0 I1)"
      and "write_fails w (out @ ''/flow/flow_bottom_secondary.bin'')
           \<or> write_fails w (out @ ''/flow_images/bottomImage.png'')
           \<or> write_fails w (out @ ''/flow_images/bottomImage2.png'')"
      and "r = Inl e"
      and "w' = w\<lparr>files := F,
                    events := events w @ T2 @ previous_trace prev @ engine_trace alg I0 I1 pf p1 p2 @ evs\<rparr>"
  | pf p1 p2 E where "previous_frame_data w prev pf p1 p2"
      and "makeOpticalFlowByName env alg = Some E"
      and "\<not> same_size I0 I1"
      and "r = Inl AssertionFailed"
      and "w' = w\<lparr>files := seed_files seed out (E I0 I1 pf p1 p2 DOWN) I0 I1 (files w),
                    events := events w @ T2 @ previous_trace prev @ engine_trace alg I0 I1 pf p1 p2 @
                      seed_trace seed out (E I0 I1 pf p1 p2 DOWN) I0 I1 @ [Assert_same_size]\<rparr>"
  | pf p1 p2 E e evs F where "previous_frame_data w prev pf p1 p2"
      and "makeOpticalFlowByName env alg = Some E"
      and "same_size I0 I1" and "dbg" and "evs \<noteq> []"
      and "prefix evs (debug_trace dbg out I0 I1 (warped env I0 I1 (E I0 I1 pf p1 p2 DOWN)))"
      and "r = Inl e"
      and "w' = w\<lparr>files := F,
                    events := events w @ T2 @ previous_trace prev @ engine_trace alg I0 I1 pf p1 p2 @
                      seed_trace seed out (E I0 I1 pf p1 p2 DOWN) I0 I1 @ warp_trace @ evs\<rparr>"
  | pf p1 p2 E where "previous_frame_data w prev pf p1 p2"
      and "makeOpticalFlowByName env alg = Some E"
      and "same_size I0 I1" and "dbg"
      and "r = Inl (ImwriteFailed (out @ ''/_bottomCombined.png''))"
      and "events w' = events w @ T2 @ previous_trace prev @ engine_trace alg I0 I1 pf p1 p2 @
             seed_trace seed out (E I0 I1 pf p1 p2 DOWN) I0 I1 @ warp_trace @
             debug_trace dbg out I0 I1 (warped env I0 I1 (E I0 I1 pf p1 p2 DOWN)) @
             composite_trace @
             combined_trace dbg out (combined env fs cam I0 (warped env I0 I1 (E I0 I1 pf p1 p2 DOWN)))"
  | pf p1 p2 E where "previous_frame_data w prev pf p1 p2"
      and "makeOpticalFlowByName env alg = Some E"
      and "same_size I0 I1"
      and "r = Inr (cam, combined env fs cam I0 (warped env I0 I1 (E I0 I1 pf p1 p2 DOWN)))"
      and "w' = w\<lparr>files :=
                      combined_files dbg out
                        (combined env fs cam I0 (warped env I0 I1 (E I0 I1 pf p1 p2 DOWN)))
                        (debug_files dbg out I0 I1 (warped env I0 I1 (E I0 I1 pf p1 p2 DOWN))
                           (seed_files seed out (E I0 I1 pf p1 p2 DOWN) I0 I1 (files w))),
                    events := events w @ T2 @ previous_trace prev @ engine_trace alg I0 I1 pf p1 p2 @
                      seed_trace seed out (E I0 I1 pf p1 p2 DOWN) I0 I1 @ warp_trace @
                      debug_trace dbg out I0 I1 (warped env I0 I1 (E I0 I1 pf p1 p2 DOWN)) @
                      composite_trace @
                      combined_trace dbg out
                        (combined env fs cam I0 (warped env I0 I1 (E I0 I1 pf p1 p2 DOWN)))\<rparr>"
proof -
  let ?w2 = "w\<lparr>events := events w @ load_trace i p cam cam2 @ working_trace cam2\<rparr>"
  note start = load_inputs_ok [OF loaded] make_working_run io_bind_def
    combineBottomImagesWithPoleRemoval_def
  show thesis
  proof (cases rule: read_previous_cases [of ?w2 prev])
    case (failed e evs)
    have "r = Inl e \<and> w' = w\<lparr>events := events w @ T2 @ evs\<rparr>"
      using failed(4) run by (simp add: start T2_def)
    then show ?thesis
      using failed(1,2,3,5,6) that(1) [of evs e] by simp
  next
    case (ok pf p1 p2)
    have pfd: "previous_frame_data w prev pf p1 p2"
      using ok(1) by simp
    let ?w3 = "w\<lparr>events := events w @ load_trace i p cam cam2 @ working_trace cam2 @
                 previous_trace prev\<rparr>"
    show ?thesis
    proof (cases "makeOpticalFlowByName env alg")
      case None
      have "r = Inl (UnknownFlowAlgorithm alg) \<and>
            w' = w\<lparr>events := events w @ T2 @ previous_trace prev @ [Call_makeOpticalFlowByName alg]\<rparr>"
        using ok(2) None run by (simp add: start T2_def estimate_flow_run I0_def I1_def)
      then show ?thesis
        using pfd None that(2) [of pf p1 p2] by simp
    next
      case (Some E)
      let ?flow = "E I0 I1 pf p1 p2 DOWN"
      let ?w4 = "w\<lparr>events := events w @ load_trace i p cam cam2 @ working_trace cam2 @
                 previous_trace prev @ engine_trace alg I0 I1 pf p1 p2\<rparr>"
      note upto4 = start ok(2) Some estimate_flow_run T2_def I0_def [symmetric] I1_def [symmetric]
      show ?thesis
      proof (cases rule: save_for_next_frame_cases [of seed out ?flow I0 I1 ?w4])
        case (failed e evs F)
        have "r = Inl e \<and> w' = w\<lparr>files := F,
                 events := events w @ T2 @ previous_trace prev @ engine_trace alg I0 I1 pf p1 p2 @ evs\<rparr>"
          using failed(4) run by (simp add: upto4)
        then show ?thesis
          using pfd Some failed(1,2,3,5) that(3) [of pf p1 p2 E evs e F] by simp
      next
        case ok4: ok
        show ?thesis
        proof (cases "same_size I0 I1")
          case False
          have "r = Inl AssertionFailed \<and>
                w' = w\<lparr>files := seed_files seed out ?flow I0 I1 (files w),
                    events := events w @ T2 @ previous_trace prev @ engine_trace alg I0 I1 pf p1 p2 @
                      seed_trace seed out ?flow I0 I1 @ [Assert_same_size]\<rparr>"
            using ok4 False run by (simp add: upto4 warp_secondary_run)
          then show ?thesis
            using pfd Some False that(4) [of pf p1 p2 E] by simp
        next
          case True
          let ?wp = "warped env I0 I1 ?flow"
          let ?w6 = "w\<lparr>files := seed_files seed out ?flow I0 I1 (files w),
                    events := events w @ load_trace i p cam cam2 @ working_trace cam2 @
                      previous_trace prev @ engine_trace alg I0 I1 pf p1 p2 @
                      seed_trace seed out ?flow I0 I1 @ warp_trace\<rparr>"
          note upto6 = upto4 ok4 True warp_secondary_run
          show ?thesis
          proof (cases rule: save_debug_images_cases [of dbg out I0 I1 ?wp ?w6])
            case (failed e evs F)
            have "r = Inl e \<and> w' = w\<lparr>files := F,
                    events := events w @ T2 @ previous_trace prev @ engine_trace alg I0 I1 pf p1 p2 @
                      seed_trace seed out ?flow I0 I1 @ warp_trace @ evs\<rparr>"
              using failed(4) run by (simp add: upto6)
            then show ?thesis
              using pfd Some True failed(1,2,3) that(5) [of pf p1 p2 E evs e F] by simp
          next
            case ok6: ok
            let ?out = "combined env fs cam I0 ?wp"
            let ?w8 = "w\<lparr>files := debug_files dbg out I0 I1 ?wp (seed_files seed out ?flow I0 I1 (files w)),
                    events := events w @ load_trace i p cam cam2 @ working_trace cam2 @
                      previous_trace prev @ engine_trace alg I0 I1 pf p1 p2 @
                      seed_trace seed out ?flow I0 I1 @ warp_trace @
                      debug_trace dbg out I0 I1 ?wp @ composite_trace\<rparr>"
            note upto8 = upto6 ok6 composite_run
            show ?thesis
            proof (cases rule: save_combined_cases [of dbg out ?out ?w8])
              case failed
              have "r = Inl (ImwriteFailed (out @ ''/_bottomCombined.png'')) \<and>
                    events w' = events w @ T2 @ previous_trace prev @ engine_trace alg I0 I1 pf p1 p2 @
                      seed_trace seed out ?flow I0 I1 @ warp_trace @
                      debug_trace dbg out I0 I1 ?wp @ composite_trace @ combined_trace dbg out ?out"
                using failed(3) run by (auto simp: upto8)
              then show ?thesis
                using pfd Some True failed(1) that(6) [of pf p1 p2 E] by simp
            next
              case ok8: ok
              have "r = Inr (cam, ?out) \<and>
                    w' = w\<lparr>files := combined_files dbg out ?out
                           (debug_files dbg out I0 I1 ?wp (seed_files seed out ?flow I0 I1 (files w))),
                      events := events w @ T2 @ previous_trace prev @ engine_trace alg I0 I1 pf p1 p2 @
                        seed_trace seed out ?flow I0 I1 @ warp_trace @
                        debug_trace dbg out I0 I1 ?wp @ composite_trace @ combined_trace dbg out ?out\<rparr>"
                using ok8 run by (auto simp: upto8 io_return_def)
              then show ?thesis
                using pfd Some True that(7) [of pf p1 p2 E] by simp
            qed
          qed
        qed
      qed
    qed
  qed
qed

lemma new_events_append [simp]:
  "new_events w (w\<lparr>events := events w @ evs\<rparr>) = evs"
  "new_events w (w\<lparr>files := F, events := events w @ evs\<rparr>) = evs"
  by (simp_all add: new_events_def)

lemma new_events_eq: "events w' = events w @ evs \<Longrightarrow> new_events w w' = evs"
  by (simp add: new_events_def)

lemmas trace_defs = load_trace_def working_trace_def previous_trace_def engine_trace_def
  seed_trace_def warp_trace_def debug_trace_def composite_trace_def combined_trace_def

lemma prefix_not_in: "prefix evs T \<Longrightarrow> e \<notin> set T \<Longrightarrow> e \<notin> set evs"
  using set_mono_prefix by blast

lemma read_previous_ok:
  "previous_frame_data w prev pf p1 p2 \<Longrightarrow>
   read_previous prev w = (Inr (pf, p1, p2), w\<lparr>events := events w @ previous_trace prev\<rparr>)"
  by (cases rule: read_previous_cases [of w prev])
     (auto simp: previous_frame_data_def split: if_splits)


lemma masked_example:
  "masked example_env 5 example_cam [[Vec3b 10 20 30, Vec3b 40 50 60]] [[Vec3b 0 0 255, Vec3b 0 0 0]]
     = [[Vec4b 10 20 30 0, Vec4b 40 50 60 255]]"
  by (simp add: masked_def featherAlphaChannel_def cutRedMaskOutOfAlphaChannel_def circleAlphaCut_def
      cvtColor_BGR2BGRA_def map_px_def enumerate_eq_zip example_env_def mat_at_def with_alpha_def)


lemma example_cam_simps:
  "cameraId example_cam = ''cam15''" "cameraId example_cam2 = ''cam16''"
  "flip180 example_cam = False" "flip180 example_cam2 = True"
  by (simp_all add: example_cam_def example_cam2_def)



lemma no_previous_frame: "previous_frame_data w ''NONE'' [] Mat0 Mat0"
  by (simp add: previous_frame_data_def)

lemma save_for_next_frame_ok:
  assumes "seed \<longrightarrow> \<not> write_fails w (out @ ''/flow/flow_bottom_secondary.bin'')
                \<and> \<not> write_fails w (out @ ''/flow_images/bottomImage.png'')
                \<and> \<not> write_fails w (out @ ''/flow_images/bottomImage2.png'')"
  shows "save_for_next_frame seed out flow I0 I1 w =
       (Inr (), w\<lparr>files := seed_files seed out flow I0 I1 (files w),
                    events := events w @ seed_trace seed out flow I0 I1\<rparr>)"
  using assms by (cases rule: save_for_next_frame_cases [of seed out flow I0 I1 w]) auto

lemma save_debug_images_ok:
  assumes "dbg \<longrightarrow> \<not> write_fails w (out @ ''/bottomImage.png'')
                \<and> \<not> write_fails w (out @ ''/bottomImage2.png'')
                \<and> \<not> write_fails w (out @ ''/bottomWarp2.png'')"
  shows "save_debug_images dbg out I0 I1 wp w =
       (Inr (), w\<lparr>files := debug_files dbg out I0 I1 wp (files w),
                    events := events w @ debug_trace dbg out I0 I1 wp\<rparr>)"
  using assms
  by (auto simp: save_debug_images_def io_when_def io_bind_def imwrite_run debug_trace_def
      debug_files_def io_return_def)

lemma save_combined_ok:
  assumes "dbg \<longrightarrow> \<not> write_fails w (out @ ''/_bottomCombined.png'')"
  shows "save_combined dbg out img w =
       (Inr (), w\<lparr>files := combined_files dbg out img (files w),
                    events := events w @ combined_trace dbg out img\<rparr>)"
  using assms by (cases rule: save_combined_cases [of dbg out img w]) auto

lemma run_succeeds:
  fixes env :: collaborators and fs :: int
    and cam cam2 :: CameraMetadata and raw raw2 m m2 :: "Vec3b mat"
  defines "I0 \<equiv> masked env fs cam raw m"
    and "I1 \<equiv> working_secondary env fs cam2 raw2 m2"
  assumes "inputs_loaded env w i p cams cam cam2 raw raw2 m m2"
    and "previous_frame_data w prev pf p1 p2"
    and "makeOpticalFlowByName env alg = Some E"
    and "seed \<longrightarrow> \<not> write_fails w (out @ ''/flow/flow_bottom_secondary.bin'')
                \<and> \<not> write_fails w (out @ ''/flow_images/bottomImage.png'')
                \<and> \<not> write_fails w (out @ ''/flow_images/bottomImage2.png'')"
    and "same_size I0 I1"
    and "dbg \<longrightarrow> \<not> write_fails w (out @ ''/bottomImage.png'')
                \<and> \<not> write_fails w (out @ ''/bottomImage2.png'')
                \<and> \<not> write_fails w (out @ ''/bottomWarp2.png'')
                \<and> \<not> write_fails w (out @ ''/_bottomCombined.png'')"
  shows "combineBottomImagesWithPoleRemoval env i p prev out dbg seed alg fs cams w =
     (Inr (cam, combined env fs cam I0 (warped env I0 I1 (E I0 I1 pf p1 p2 DOWN))),
      w\<lparr>files :=
          combined_files dbg out (combined env fs cam I0 (warped env I0 I1 (E I0 I1 pf p1 p2 DOWN)))
            (debug_files dbg out I0 I1 (warped env I0 I1 (E I0 I1 pf p1 p2 DOWN))
               (seed_files seed out (E I0 I1 pf p1 p2 DOWN) I0 I1 (files w))),
        events := events w @ load_trace i p cam cam2 @ working_trace cam2 @ previous_trace prev @
          engine_trace alg I0 I1 pf p1 p2 @
          seed_trace seed out (E I0 I1 pf p1 p2 DOWN) I0 I1 @ warp_trace @
          debug_trace dbg out I0 I1 (warped env I0 I1 (E I0 I1 pf p1 p2 DOWN)) @
          composite_trace @
          combined_trace dbg out
            (combined env fs cam I0 (warped env I0 I1 (E I0 I1 pf p1 p2 DOWN)))\<rparr>)"
proof -
  have prev: "previous_frame_data
      (w\<lparr>events := events w @ load_trace i p cam cam2 @ working_trace cam2\<rparr>) prev pf p1 p2"
    using assms(4) by simp
  show ?thesis
    using assms(6,7,8)
    by (simp add: combineBottomImagesWithPoleRemoval_def io_bind_def load_inputs_ok [OF assms(3)]
        make_working_run read_previous_ok [OF prev] estimate_flow_run assms(5)
        warp_secondary_run I0_def [symmetric] I1_def [symmetric]
        save_for_next_frame_ok save_debug_images_ok save_combined_ok composite_run io_return_def)
qed

lemma example_loaded:
  "inputs_loaded example_env example_disk ''img'' ''mask'' [example_cam, example_cam2]
     example_cam example_cam2 [[Vec3b 10 20 30, Vec3b 40 50 60]] [[Vec3b 1 2 3, Vec3b 4 5 6]]
     [[Vec3b 0 0 255, Vec3b 0 0 0]] [[Vec3b 0 0 255, Vec3b 0 0 0]]"
  by (simp add: inputs_loaded_def example_env_def example_disk_def example_cam_simps
      decode_color_def rows_def cols_def)

lemma working_secondary_example:
  "working_secondary example_env 5 example_cam2 [[Vec3b 1 2 3, Vec3b 4 5 6]]
     [[Vec3b 0 0 255, Vec3b 0 0 0]] = [[Vec4b 4 5 6 255, Vec4b 1 2 3 0]]"
  by (simp add: working_secondary_def flipped_if_def flip_both_def masked_def
      featherAlphaChannel_def cutRedMaskOutOfAlphaChannel_def circleAlphaCut_def
      cvtColor_BGR2BGRA_def map_px_def enumerate_eq_zip example_env_def example_cam_simps
      mat_at_def with_alpha_def)

lemma example_engine: "makeOpticalFlowByName example_env ''pixflow'' = Some zero_flow"
  by (simp add: example_env_def)

lemma example_same_size:
  "same_size
     (masked example_env 5 example_cam [[Vec3b 10 20 30, Vec3b 40 50 60]] [[Vec3b 0 0 255, Vec3b 0 0 0]])
     (working_secondary example_env 5 example_cam2 [[Vec3b 1 2 3, Vec3b 4 5 6]]
        [[Vec3b 0 0 255, Vec3b 0 0 0]])"
  by (simp add: masked_example working_secondary_example same_size_def rows_def cols_def)

lemma round32_small: "round32 4 = Finite 4" "round32 5 = Finite 5" "round32 6 = Finite 6"
  by code_simp+

lemma warped_example:
  "warped example_env [[Vec4b 10 20 30 0, Vec4b 40 50 60 255]] [[Vec4b 4 5 6 255, Vec4b 1 2 3 0]]
     [[Point2f (Finite 0) (Finite 0), Point2f (Finite 0) (Finite 0)]]
   = [[Vec4b 4 5 6 255, Vec4b 1 2 3 0]]"
  by (simp add: warped_def remap_def warp_loop_def warp_row_def warp_at_def new_warpMat_def
      rows_def cols_def upt_rec set_at_def mat_at_def point_add_def float_of_int_def
      round32_examples example_env_def nearest_def border_fetch_def)

lemma combined_example:
  "combined example_env 5 example_cam [[Vec4b 10 20 30 0, Vec4b 40 50 60 255]]
     [[Vec4b 4 5 6 255, Vec4b 1 2 3 0]] = [[Vec4b 4 5 6 255, Vec4b 40 50 60 255]]"
  by (simp add: combined_def recut_def featherAlphaChannel_def circleAlphaCut_def
      applyColorAdjustmentModel_def combine_loop_def combine_row_def combine_at_def
      map_px_def enumerate_eq_zip example_env_def rows_def cols_def upt_rec set_at_def mat_at_def
      with_alpha_def float_of_uchar_def fsub_def fgt_def round32_examples round32_small Let_def trunc_def)


lemma example_run_succeeds:
  "example_run ''NONE'' dbg seed example_disk =
     (Inr (example_cam, [[Vec4b 4 5 6 255, Vec4b 40 50 60 255]]),
      snd (example_run ''NONE'' dbg seed example_disk))"
proof -
  have wr: "\<not> write_fails example_disk path" for path
    by (simp add: example_disk_def)
  show ?thesis
    unfolding example_run_def
    using run_succeeds [OF example_loaded no_previous_frame example_engine _ example_same_size,
        of seed "''out''" dbg]
    by (simp add: wr masked_example working_secondary_example zero_flow_def warped_example
        combined_example)
qed

lemma engine_call_args:
  assumes loaded: "inputs_loaded env w i p cams cam cam2 raw raw2 m m2"
    and run: "combineBottomImagesWithPoleRemoval env i p prev out dbg seed alg fs cams w = (r, w')"
    and call: "Call_computeOpticalFlow J0 J1 qf q1 q2 h \<in> set (new_events w w')"
  shows "J0 = masked env fs cam raw m \<and> J1 = working_secondary env fs cam2 raw2 m2
    \<and> h = DOWN \<and> previous_frame_data w prev qf q1 q2"
  using loaded run
proof (cases rule: after_load_cases)
  case (previous_failed e evs)
  have "Call_computeOpticalFlow J0 J1 qf q1 q2 h \<notin> set evs"
    using previous_failed(3) by (auto dest!: set_mono_prefix simp: trace_defs)
  then show ?thesis using previous_failed call by (auto simp: trace_defs)
next
  case (engine_unknown pf p1 p2)
  then show ?thesis using call by (auto simp: trace_defs)
next
  case (seed_failed pf p1 p2 E e evs F)
  have "Call_computeOpticalFlow J0 J1 qf q1 q2 h \<notin> set evs"
    using seed_failed(5) by (auto dest!: set_mono_prefix simp: trace_defs)
  then show ?thesis using seed_failed call by (auto simp: trace_defs)
next
  case (assertion_failed pf p1 p2 E)
  then show ?thesis using call by (auto simp: trace_defs)
next
  case (debug_failed pf p1 p2 E e evs F)
  have "Call_computeOpticalFlow J0 J1 qf q1 q2 h \<notin> set evs"
    using debug_failed(6) by (auto dest!: set_mono_prefix simp: trace_defs)
  then show ?thesis using debug_failed call by (auto simp: trace_defs)
next
  case (combined_failed pf p1 p2 E)
  then show ?thesis using call by (auto simp: trace_defs dest!: new_events_eq)
next
  case (success pf p1 p2 E)
  then show ?thesis using call by (auto simp: trace_defs)
qed

lemma engine_called_on_success:
  assumes loaded: "inputs_loaded env w i p cams cam cam2 raw raw2 m m2"
    and run: "combineBottomImagesWithPoleRemoval env i p prev out dbg seed alg fs cams w = (Inr res, w')"
  shows "\<exists>qf q1 q2. Call_computeOpticalFlow (masked env fs cam raw m)
      (working_secondary env fs cam2 raw2 m2) qf q1 q2 DOWN \<in> set (new_events w w')"
  using loaded run
proof (cases rule: after_load_cases)
  case (success pf p1 p2 E)
  then show ?thesis by (auto simp: engine_trace_def)
qed simp_all

lemma seeded_loaded:
  "inputs_loaded example_env seeded_disk ''img'' ''mask'' [example_cam, example_cam2]
     example_cam example_cam2 [[Vec3b 10 20 30, Vec3b 40 50 60]] [[Vec3b 1 2 3, Vec3b 4 5 6]]
     [[Vec3b 0 0 255, Vec3b 0 0 0]] [[Vec3b 0 0 255, Vec3b 0 0 0]]"
  by (simp add: inputs_loaded_def example_env_def seeded_disk_def example_cam_simps
      decode_color_def rows_def cols_def)

lemma seeded_previous:
  "previous_frame_data seeded_disk ''prev''
     [[Point2f (Finite 1) (Finite 0), Point2f (Finite 1) (Finite 0)]]
     (Mat8UC4 [[Vec4b 9 9 9 255, Vec4b 8 8 8 255]])
     (Mat8UC4 [[Vec4b 7 7 7 255, Vec4b 6 6 6 255]])"
  by (simp add: previous_frame_data_def seeded_disk_def decode_flow_def decode_unchanged_def)

lemma seeded_run_events:
  "new_events seeded_disk (snd (example_run ''prev'' False False seeded_disk)) =
     load_trace ''img'' ''mask'' example_cam example_cam2 @ working_trace example_cam2 @
     previous_trace ''prev'' @
     engine_trace ''pixflow'' [[Vec4b 10 20 30 0, Vec4b 40 50 60 255]]
       [[Vec4b 4 5 6 255, Vec4b 1 2 3 0]]
       [[Point2f (Finite 1) (Finite 0), Point2f (Finite 1) (Finite 0)]]
       (Mat8UC4 [[Vec4b 9 9 9 255, Vec4b 8 8 8 255]])
       (Mat8UC4 [[Vec4b 7 7 7 255, Vec4b 6 6 6 255]]) @
     warp_trace @ composite_trace"
proof -
  have wr: "\<not> write_fails seeded_disk path" for path
    by (simp add: seeded_disk_def)
  show ?thesis
    unfolding example_run_def
    using run_succeeds [OF seeded_loaded seeded_previous example_engine _ example_same_size,
        of False "''out''" False]
    by (simp add: wr masked_example working_secondary_example seed_trace_def debug_trace_def
        combined_trace_def)
qed

lemma mat_at_map_px_rect:
  "rect m \<Longrightarrow> y < rows m \<Longrightarrow> x < cols m \<Longrightarrow> mat_at (map_px f m) y x = f y x (mat_at m y x)"
  by (simp add: mat_at_map_px rect_row_length)

lemma mat_at_map_map_rect:
  "rect m \<Longrightarrow> y < rows m \<Longrightarrow> x < cols m \<Longrightarrow> mat_at (map (map g) m) y x = g (mat_at m y x)"
  by (simp add: mat_at_map_map rect_row_length)

lemma color_of_with_alpha [simp]: "color_of (with_alpha p a) = color_of p"
  by (simp add: color_of_def with_alpha_def)

lemma masked_size:
  "rows (masked env fs cam raw m) = rows raw" "cols (masked env fs cam raw m) = cols raw"
  by (simp_all add: masked_def featherAlphaChannel_def cutRedMaskOutOfAlphaChannel_def
      circleAlphaCut_def cvtColor_BGR2BGRA_def rows_map_px cols_map_px rows_map_map cols_map_map)

lemma rect_masked: "rect raw \<Longrightarrow> rect (masked env fs cam raw m)"
  by (simp add: masked_def featherAlphaChannel_def cutRedMaskOutOfAlphaChannel_def
      circleAlphaCut_def cvtColor_BGR2BGRA_def rect_map_px rect_map_map)

lemma color_of_masked:
  assumes "rect raw" "y < rows raw" "x < cols raw"
  shows "color_of (mat_at (masked env fs cam raw m) y x) = mat_at raw y x"
proof -
  let ?a = "cvtColor_BGR2BGRA raw"
  let ?b = "circleAlphaCut env ?a (usablePixelsRadius cam)"
  let ?c = "cutRedMaskOutOfAlphaChannel env ?b m"
  have a: "rect ?a" "rows ?a = rows raw" "cols ?a = cols raw"
    using assms(1) by (simp_all add: cvtColor_BGR2BGRA_def rect_map_map rows_map_map cols_map_map)
  have b: "rect ?b" "rows ?b = rows raw" "cols ?b = cols raw"
    using a by (simp_all add: circleAlphaCut_def rect_map_px rows_map_px cols_map_px)
  have c: "rect ?c" "rows ?c = rows raw" "cols ?c = cols raw"
    using b by (simp_all add: cutRedMaskOutOfAlphaChannel_def rect_map_px rows_map_px cols_map_px)
  have "color_of (mat_at (masked env fs cam raw m) y x) = color_of (mat_at ?c y x)"
    using c assms(2,3) by (simp add: masked_def featherAlphaChannel_def mat_at_map_px_rect)
  also have "\<dots> = color_of (mat_at ?b y x)"
    using b assms(2,3) by (simp add: cutRedMaskOutOfAlphaChannel_def mat_at_map_px_rect)
  also have "\<dots> = color_of (mat_at ?a y x)"
    using a assms(2,3) by (simp add: circleAlphaCut_def mat_at_map_px_rect)
  also have "\<dots> = mat_at raw y x"
    using assms by (simp add: cvtColor_BGR2BGRA_def mat_at_map_map_rect color_of_def)
  finally show ?thesis .
qed

lemma run_starts_with_working:
  assumes loaded: "inputs_loaded env w i p cams cam cam2 raw raw2 m m2"
    and run: "combineBottomImagesWithPoleRemoval env i p prev out dbg seed alg fs cams w = (r, w')"
  shows "\<exists>rest. new_events w w' = load_trace i p cam cam2 @ working_trace cam2 @ rest
      \<and> Call_flip Primary \<notin> set rest \<and> Call_flip Secondary \<notin> set rest"
  using loaded run
proof (cases rule: after_load_cases)
  case (previous_failed e evs)
  have "Call_flip Primary \<notin> set evs" "Call_flip Secondary \<notin> set evs"
    using previous_failed(3) by (auto dest!: set_mono_prefix simp: trace_defs)
  then show ?thesis using previous_failed by simp
next
  case (engine_unknown pf p1 p2)
  then show ?thesis by (simp add: trace_defs)
next
  case (seed_failed pf p1 p2 E e evs F)
  have "Call_flip Primary \<notin> set evs" "Call_flip Secondary \<notin> set evs"
    using seed_failed(5) by (auto dest!: set_mono_prefix simp: trace_defs)
  then show ?thesis using seed_failed by (simp add: trace_defs)
next
  case (assertion_failed pf p1 p2 E)
  then show ?thesis by (simp add: trace_defs)
next
  case (debug_failed pf p1 p2 E e evs F)
  have "Call_flip Primary \<notin> set evs" "Call_flip Secondary \<notin> set evs"
    using debug_failed(6) by (auto dest!: set_mono_prefix simp: trace_defs)
  then show ?thesis using debug_failed by (simp add: trace_defs)
next
  case (combined_failed pf p1 p2 E)
  then show ?thesis by (simp add: trace_defs new_events_def)
next
  case (success pf p1 p2 E)
  then show ?thesis by (simp add: trace_defs)
qed

lemma example_run_events:
  "new_events example_disk (snd (example_run ''NONE'' False False example_disk)) =
     [Call_getBottomCamModel Primary, Call_getBottomCamModel Secondary,
      Call_imread ''img/cam15.png'' 1, Call_imread ''img/cam16.png'' 1,
      Call_imread ''mask/cam15.png'' 1, Call_imread ''mask/cam16.png'' 1,
      Call_cvtColor Primary, Call_cvtColor Secondary,
      Call_circleAlphaCut Primary, Call_circleAlphaCut Secondary,
      Call_cutRedMaskOutOfAlphaChannel Primary, Call_cutRedMaskOutOfAlphaChannel Secondary,
      Call_featherAlphaChannel Primary, Call_featherAlphaChannel Secondary,
      Call_flip Secondary,
      Call_makeOpticalFlowByName ''pixflow'',
      Call_computeOpticalFlow [[Vec4b 10 20 30 0, Vec4b 40 50 60 255]]
        [[Vec4b 4 5 6 255, Vec4b 1 2 3 0]] [] Mat0 Mat0 DOWN,
      Assert_same_size, Loop_warpMat, Call_remap CV_INTER_CUBIC BORDER_CONSTANT,
      Call_buildColorAdjustmentModel, Call_applyColorAdjustmentModel, Loop_combine,
      Call_circleAlphaCut Primary, Call_featherAlphaChannel Primary]"
proof -
  have wr: "\<not> write_fails example_disk path" for path
    by (simp add: example_disk_def)
  show ?thesis
    unfolding example_run_def
    using run_succeeds [OF example_loaded no_previous_frame example_engine _ example_same_size,
        of False "''out''" False]
    by (simp add: wr masked_example working_secondary_example trace_defs example_cam_simps)
qed


lemma load_inputs_bad_mask:
  assumes "getBottomCamModel env cams = Some cam" and "getBottomCamModel2 env cams = Some cam2"
    and "mask_unusable w (p @ ''/'' @ cameraId cam @ ''.png'')
         \<or> mask_unusable w (p @ ''/'' @ cameraId cam2 @ ''.png'')"
  shows "\<exists>e evs. load_inputs env i p cams w = (Inl e, w\<lparr>events := events w @ evs\<rparr>)
      \<and> is_missing_resource e \<and> prefix evs (load_trace i p cam cam2)
      \<and> (decode_color (files w (i @ ''/'' @ cameraId cam @ ''.png'')) \<noteq> None
         \<and> decode_color (files w (i @ ''/'' @ cameraId cam2 @ ''.png'')) \<noteq> None
         \<and> decode_color (files w (p @ ''/'' @ cameraId cam @ ''.png'')) \<noteq> None
         \<and> decode_color (files w (p @ ''/'' @ cameraId cam2 @ ''.png'')) \<noteq> None
         \<longrightarrow> e = VrCamException (''missing or bad pole mask:'' @ (p @ ''/'' @ cameraId cam @ ''.png'')
                  @ '','' @ (p @ ''/'' @ cameraId cam2 @ ''.png'')))"
  using assms
  by (auto simp: load_inputs_def call_defs io_bind_def emit_run io_return_def io_throw_def
      imread_color_run load_trace_def Let_def mask_unusable_def prefix_def
      split: option.splits)

section \<open>Facts about the warp and the last pass\<close>

lemma normalized_alpha_opaque: "ch3 p = 255 \<Longrightarrow> normalized_alpha p = Finite 1"
  by (simp add: normalized_alpha_def float_of_uchar_def round32_examples)

lemma blend_px_opaque: "ch3 p = 255 \<Longrightarrow> blend_px p q = p"
  by (simp add: blend_px_def normalized_alpha_opaque)

lemma color_of_recut:
  assumes "rect img" "y < rows img" "x < cols img"
  shows "color_of (mat_at (recut env fs cam img) y x) = color_of (mat_at img y x)"
proof -
  let ?c = "circleAlphaCut env img (usablePixelsRadius cam)"
  have c: "rect ?c" "rows ?c = rows img" "cols ?c = cols img"
    using assms(1) by (simp_all add: circleAlphaCut_def rect_map_px rows_map_px cols_map_px)
  have "color_of (mat_at (recut env fs cam img) y x) = color_of (mat_at ?c y x)"
    using c assms(2,3) by (simp add: recut_def featherAlphaChannel_def mat_at_map_px_rect)
  also have "\<dots> = color_of (mat_at img y x)"
    using assms by (simp add: circleAlphaCut_def mat_at_map_px_rect)
  finally show ?thesis .
qed

lemma warp_at_rows: "rows (warp_at flow y x wm) = rows wm"
  by (simp add: warp_at_def rows_set_at)

lemma warp_at_cols: "cols (warp_at flow y x wm) = cols wm"
  by (simp add: warp_at_def cols_set_at)

lemma warp_at_rect: "rect wm \<Longrightarrow> rect (warp_at flow y x wm)"
  by (simp add: warp_at_def rect_set_at)

lemma warp_at_pixel:
  assumes "rect wm" "y < rows wm" "x < cols wm"
  shows "mat_at (warp_at flow y x wm) y' x' =
    (if y' = y \<and> x' = x then warp_point flow y x else mat_at wm y' x')"
proof -
  have "x < length (wm ! y)"
    using assms by (simp add: rect_row_length)
  then show ?thesis
    using assms(2) by (simp add: warp_at_def warp_point_def at_set_at)
qed

lemma warp_cols_prefix:
  assumes "rect wm" "y < rows wm" "n \<le> cols wm"
  shows "rect (fold (\<lambda>x. warp_at flow y x) [0..<n] wm)
     \<and> rows (fold (\<lambda>x. warp_at flow y x) [0..<n] wm) = rows wm
     \<and> cols (fold (\<lambda>x. warp_at flow y x) [0..<n] wm) = cols wm
     \<and> (\<forall>y' x'. mat_at (fold (\<lambda>x. warp_at flow y x) [0..<n] wm) y' x' =
          (if y' = y \<and> x' < n then warp_point flow y x' else mat_at wm y' x'))"
  using assms(3)
proof (induction n)
  case 0
  then show ?case using assms(1) by simp
next
  case (Suc n)
  let ?m = "fold (\<lambda>x. warp_at flow y x) [0..<n] wm"
  have ih: "rect ?m" "rows ?m = rows wm" "cols ?m = cols wm"
    "\<And>y' x'. mat_at ?m y' x' =
        (if y' = y \<and> x' < n then warp_point flow y x' else mat_at wm y' x')"
    using Suc by simp_all
  have px: "\<And>y' x'. mat_at (warp_at flow y n ?m) y' x' =
      (if y' = y \<and> x' = n then warp_point flow y n else mat_at ?m y' x')"
    using warp_at_pixel [of ?m y n flow] ih(1,2,3) assms(2) Suc.prems by simp
  show ?case
    using ih(1)
    by (auto simp: warp_at_rect warp_at_rows warp_at_cols ih(2,3) px ih(4))
qed

lemma warp_row_props:
  assumes "rect wm" "y < rows wm"
  shows "rect (warp_row flow y wm)"
    and "rows (warp_row flow y wm) = rows wm"
    and "cols (warp_row flow y wm) = cols wm"
    and "mat_at (warp_row flow y wm) y' x' =
          (if y' = y \<and> x' < cols wm then warp_point flow y x' else mat_at wm y' x')"
  using warp_cols_prefix [OF assms, of "cols wm" flow]
  by (simp_all add: warp_row_def)

lemma warp_rows_prefix:
  assumes "rect wm" "k \<le> rows wm"
  shows "rect (fold (\<lambda>y. warp_row flow y) [0..<k] wm)
     \<and> rows (fold (\<lambda>y. warp_row flow y) [0..<k] wm) = rows wm
     \<and> cols (fold (\<lambda>y. warp_row flow y) [0..<k] wm) = cols wm
     \<and> (\<forall>y' x'. mat_at (fold (\<lambda>y. warp_row flow y) [0..<k] wm) y' x' =
          (if y' < k \<and> x' < cols wm then warp_point flow y' x' else mat_at wm y' x'))"
  using assms(2)
proof (induction k)
  case 0
  then show ?case using assms(1) by simp
next
  case (Suc k)
  let ?m = "fold (\<lambda>y. warp_row flow y) [0..<k] wm"
  have ih: "rect ?m" "rows ?m = rows wm" "cols ?m = cols wm"
    "\<And>y' x'. mat_at ?m y' x' =
        (if y' < k \<and> x' < cols wm then warp_point flow y' x' else mat_at wm y' x')"
    using Suc by simp_all
  have k: "k < rows ?m"
    using Suc.prems ih(2) by simp
  show ?case
    using warp_row_props [OF ih(1) k, of flow]
    by (auto simp: ih)
qed

lemma warp_loop_props:
  assumes "rect wm"
  shows "rect (warp_loop flow wm)"
    and "rows (warp_loop flow wm) = rows wm"
    and "cols (warp_loop flow wm) = cols wm"
    and "mat_at (warp_loop flow wm) y x =
          (if y < rows wm \<and> x < cols wm then warp_point flow y x else mat_at wm y x)"
  using warp_rows_prefix [OF assms, of "rows wm" flow]
  by (simp_all add: warp_loop_def)

lemma rows_new_warpMat: "rows (new_warpMat h w) = h"
  by (simp add: new_warpMat_def rows_def)

lemma cols_new_warpMat: "0 < h \<Longrightarrow> cols (new_warpMat h w) = w"
  by (cases h) (simp_all add: new_warpMat_def cols_def)

lemma rect_new_warpMat: "rect (new_warpMat h w)"
  by (cases h) (simp_all add: new_warpMat_def rect_def cols_def list_all_length nth_Cons')

lemmas new_warpMat_props = rect_new_warpMat rows_new_warpMat cols_new_warpMat

section \<open>Facts about rounding and the range of the blended channels\<close>

text \<open>
  Rounding to single precision moves a value by at most half a unit in the last place. From the
  bound it follows that the two tests of line 156 on the normalized alphas are tests on the
  alpha bytes, and that every channel the loop computes at lines 166 to 168 is a number from 0
  up to, but excluding, 256: the conversion to a byte at line 165 only drops the fraction.
\<close>

lemma round_even_error: "\<bar>of_int (round_even z) - z\<bar> \<le> 1 / 2"
proof -
  have "of_int \<lfloor>z\<rfloor> \<le> z" "z < of_int \<lfloor>z\<rfloor> + 1"
    by linarith+
  then show ?thesis
    by (auto simp: round_even_def Let_def)
qed

lemma round_even_nonneg: "0 \<le> z \<Longrightarrow> 0 \<le> round_even z"
  by (auto simp: round_even_def Let_def)

lemma fl32_error: "\<bar>fl32 q - q\<bar> \<le> 2 powi (binexp q - 24)"
proof -
  define u :: rat where "u = 2 powi (binexp q - 23)"
  have u: "0 < u" by (simp add: u_def)
  have half: "u / 2 = 2 powi (binexp q - 24)"
    by (simp add: u_def power_int_diff)
  have "fl32 q - q = (of_int (round_even (q / u)) - q / u) * u"
    using u by (simp add: fl32_def u_def [symmetric] Let_def field_simps)
  then have "\<bar>fl32 q - q\<bar> = \<bar>of_int (round_even (q / u)) - q / u\<bar> * u"
    using u by (simp add: abs_mult)
  also have "\<dots> \<le> (1 / 2) * u"
    using round_even_error [of "q / u"] u by (intro mult_right_mono) simp_all
  finally show ?thesis
    using half by simp
qed

lemma fl32_nonneg: "0 \<le> q \<Longrightarrow> 0 \<le> fl32 q"
proof -
  assume q: "0 \<le> q"
  define u :: rat where "u = 2 powi (binexp q - 23)"
  have u: "0 < u" by (simp add: u_def)
  have "0 \<le> round_even (q / u)"
    using q u by (intro round_even_nonneg) simp
  then show ?thesis
    using u by (simp add: fl32_def u_def [symmetric] Let_def)
qed

lemma halvings_le: "1 \<le> q \<Longrightarrow> q < 2 ^ Suc k \<Longrightarrow> halvings n q \<le> int k"
proof (induction n arbitrary: q k)
  case 0
  then show ?case by simp
next
  case (Suc n)
  show ?case
  proof (cases "q < 2")
    case True
    then show ?thesis by simp
  next
    case False
    then obtain j where k: "k = Suc j"
      using Suc.prems(2) by (cases k) auto
    have "halvings n (q / 2) \<le> int j"
      using False Suc.prems(2) by (intro Suc.IH) (simp_all add: k)
    then show ?thesis
      using False by (simp add: k)
  qed
qed

lemma doublings_nonneg: "0 \<le> doublings n q"
  by (induction n arbitrary: q) simp_all

lemma binexp_le: "\<bar>q\<bar> < 2 ^ Suc k \<Longrightarrow> binexp q \<le> int k"
  using halvings_le [of "\<bar>q\<bar>" k 127] doublings_nonneg [of 126 "\<bar>q\<bar>"]
  by (auto simp: binexp_def)

lemma fl32_error_below: "\<bar>q\<bar> < 2 ^ Suc k \<Longrightarrow> \<bar>fl32 q - q\<bar> \<le> 2 powi (int k - 24)"
proof -
  assume "\<bar>q\<bar> < 2 ^ Suc k"
  then have "binexp q - 24 \<le> int k - 24"
    using binexp_le by simp
  then have "(2::rat) powi (binexp q - 24) \<le> 2 powi (int k - 24)"
    by (intro power_int_increasing) simp_all
  then show ?thesis
    using fl32_error [of q] by linarith
qed

lemma fl32_error_unit: "\<bar>q\<bar> < 2 \<Longrightarrow> \<bar>fl32 q - q\<bar> \<le> 1 / 2 ^ 24"
  using fl32_error_below [of q 0] by (simp add: power_int_minus field_simps)

lemma fl32_error_byte: "\<bar>q\<bar> < 256 \<Longrightarrow> \<bar>fl32 q - q\<bar> \<le> 1 / 2 ^ 17"
  using fl32_error_below [of q 7] by (simp add: power_int_minus field_simps)

lemma round32_finite: "\<bar>q\<bar> < 512 \<Longrightarrow> round32 q = Finite (fl32 q)"
proof -
  assume q: "\<bar>q\<bar> < 512"
  then have "\<bar>fl32 q - q\<bar> \<le> 2 powi (8 - 24)"
    using fl32_error_below [of q 8] by simp
  also have "\<dots> \<le> (1::rat)"
    by (simp add: power_int_minus field_simps)
  finally have "\<bar>fl32 q\<bar> < 513" using q by linarith
  moreover have "(513::rat) \<le> 2 powi 128" by simp
  ultimately show ?thesis
    by (simp add: round32_def Let_def)
qed


lemma uint_uchar: "0 \<le> uint (c::uchar)" "uint (c::uchar) \<le> 255"
  using uint_bounded [of c] by simp_all

lemma uchar_range: "0 \<le> (of_int (uint (c::uchar)) :: rat)" "(of_int (uint (c::uchar)) :: rat) \<le> 255"
  using uint_uchar [of c] by (simp_all only: of_int_0_le_iff of_int_le_numeral_iff)

lemma fl32_zero: "fl32 0 = 0"
  using round32_examples(1) round32_finite [of 0] by simp

lemma fl32_one: "fl32 1 = 1"
  using round32_examples(2) round32_finite [of 1] by simp

lemma normalized_alpha_value:
  "normalized_alpha p = Finite (fl32 (of_int (uint (ch3 p)) / 255))"
proof -
  have "\<bar>(of_int (uint (ch3 p)) :: rat) / 255\<bar> < 512"
    using uchar_range [of "ch3 p"] by simp
  then show ?thesis
    by (simp add: normalized_alpha_def float_of_uchar_def round32_finite)
qed

lemma alpha_int_below_one: "0 \<le> n \<Longrightarrow> n \<le> 254 \<Longrightarrow> fl32 (of_int n / 255) < 1"
proof -
  assume n: "0 \<le> n" "n \<le> 254"
  define q :: rat where "q = of_int n / 255"
  have q: "0 \<le> q" "q \<le> 254 / 255"
    using n by (simp_all add: q_def)
  then have "\<bar>q\<bar> < 2" by simp
  then have "\<bar>fl32 q - q\<bar> \<le> 1 / 2 ^ 24"
    by (rule fl32_error_unit)
  moreover have "(1::rat) / 2 ^ 24 < 1 / 255" by simp
  ultimately have "fl32 q < 1" using q by linarith
  then show ?thesis by (simp add: q_def)
qed

lemma alpha_int_above_zero: "1 \<le> n \<Longrightarrow> n \<le> 255 \<Longrightarrow> 0 < fl32 (of_int n / 255)"
proof -
  assume n: "1 \<le> n" "n \<le> 255"
  define q :: rat where "q = of_int n / 255"
  have q: "1 / 255 \<le> q" "q \<le> 1"
    using n by (simp_all add: q_def)
  then have "\<bar>q\<bar> < 2" by simp
  then have "\<bar>fl32 q - q\<bar> \<le> 1 / 2 ^ 24"
    by (rule fl32_error_unit)
  moreover have "(1::rat) / 2 ^ 24 < 1 / 255" by simp
  ultimately have "0 < fl32 q" using q by linarith
  then show ?thesis by (simp add: q_def)
qed

lemma alpha_below_one_iff: "flt (normalized_alpha p) (Finite 1) \<longleftrightarrow> ch3 p \<noteq> 255"
proof (cases "ch3 p = 255")
  case True
  then show ?thesis by (simp add: normalized_alpha_opaque)
next
  case False
  then have "uint (ch3 p) \<noteq> 255"
    by (metis word_of_int_uint word_of_int_numeral)
  then have "uint (ch3 p) \<le> 254"
    using uint_uchar [of "ch3 p"] by linarith
  then have "fl32 (of_int (uint (ch3 p)) / 255) < 1"
    using uint_uchar(1) by (rule alpha_int_below_one [rotated])
  then show ?thesis
    using False unfolding normalized_alpha_value by simp
qed

lemma alpha_above_zero_iff: "fgt (normalized_alpha p) (Finite 0) \<longleftrightarrow> ch3 p \<noteq> 0"
proof (cases "ch3 p = 0")
  case True
  then show ?thesis
    by (simp add: normalized_alpha_value fgt_def fl32_zero)
next
  case False
  then have "uint (ch3 p) \<noteq> 0"
    by (simp add: uint_0_iff)
  then have "1 \<le> uint (ch3 p)"
    using uint_uchar [of "ch3 p"] by linarith
  then have "0 < fl32 (of_int (uint (ch3 p)) / 255)"
    using uint_uchar(2) by (rule alpha_int_above_zero)
  then show ?thesis
    using False unfolding normalized_alpha_value fgt_def by simp
qed


lemma fl32_upper: "0 \<le> q \<Longrightarrow> q < 256 \<Longrightarrow> 0 \<le> fl32 q \<and> fl32 q \<le> q + 1 / 131072"
proof -
  assume q: "0 \<le> q" "q < 256"
  then have "\<bar>q\<bar> < 256" by simp
  then have "\<bar>fl32 q - q\<bar> \<le> 1 / 2 ^ 17" by (rule fl32_error_byte)
  then have "\<bar>fl32 q - q\<bar> \<le> 1 / 131072" by simp
  then show ?thesis using fl32_nonneg [OF q(1)] by linarith
qed

lemma normalized_alpha_unit:
  obtains q1 where "normalized_alpha p = Finite q1" and "0 \<le> q1" and "q1 \<le> 1"
proof -
  let ?q = "(of_int (uint (ch3 p)) :: rat) / 255"
  have "0 \<le> ?q" using uchar_range [of "ch3 p"] by simp
  then have nonneg: "0 \<le> fl32 ?q" by (rule fl32_nonneg)
  have "fl32 ?q \<le> 1"
  proof (cases "ch3 p = 255")
    case True
    then show ?thesis
      using normalized_alpha_opaque [of p] by (simp add: normalized_alpha_value)
  next
    case False
    then have "flt (normalized_alpha p) (Finite 1)" by (simp add: alpha_below_one_iff)
    then show ?thesis by (simp add: normalized_alpha_value)
  qed
  with nonneg show ?thesis
    using that [of "fl32 ?q"] by (simp add: normalized_alpha_value)
qed

lemma mix_in_range:
  obtains r where
    "fadd (fmul (normalized_alpha p) (float_of_uchar c))
          (fmul (fsub (Finite 1) (normalized_alpha p)) (float_of_uchar d)) = Finite r"
    and "0 \<le> r" and "r < 256"
proof -
  obtain q1 where a1: "normalized_alpha p = Finite q1" and q1: "0 \<le> q1" "q1 \<le> 1"
    by (rule normalized_alpha_unit)
  define C :: rat where "C = of_int (uint c)"
  define D :: rat where "D = of_int (uint d)"
  have C: "0 \<le> C" "C \<le> 255" and D: "0 \<le> D" "D \<le> 255"
    using uchar_range [of c] uchar_range [of d] by (simp_all add: C_def D_def)
  have fc: "float_of_uchar c = Finite C" and fd: "float_of_uchar d = Finite D"
    unfolding float_of_uchar_def C_def D_def by (rule refl)+
  define q2 where "q2 = fl32 (1 - q1)"
  have "\<bar>1 - q1\<bar> < 2" using q1 by simp
  then have "\<bar>fl32 (1 - q1) - (1 - q1)\<bar> \<le> 1 / 2 ^ 24" by (rule fl32_error_unit)
  then have "\<bar>fl32 (1 - q1) - (1 - q1)\<bar> \<le> 1 / 16777216" by simp
  then have "fl32 (1 - q1) \<le> 1 - q1 + 1 / 16777216" by linarith
  moreover have "0 \<le> fl32 (1 - q1)" using q1 by (intro fl32_nonneg) simp
  ultimately have q2: "0 \<le> q2" "q2 \<le> 1 - q1 + 1 / 16777216"
    unfolding q2_def by blast+
  have a2: "fsub (Finite 1) (normalized_alpha p) = Finite q2"
    using q1 by (simp add: a1 fsub_def q2_def round32_finite)
  define x1 where "x1 = fl32 (q1 * C)"
  define x2 where "x2 = fl32 (q2 * D)"
  have p1: "0 \<le> q1 * C" "q1 * C \<le> q1 * 255"
    using q1 C by (simp_all add: mult_left_mono)
  have p2: "0 \<le> q2 * D" "q2 * D \<le> q2 * 255"
    using q2 D by (simp_all add: mult_left_mono)
  have p1': "q1 * C < 256" using p1 q1 by linarith
  have p2': "q2 * D < 256" using p2 q2 q1 by linarith
  have x1: "0 \<le> x1" "x1 \<le> q1 * C + 1 / 131072"
    using fl32_upper [OF p1(1) p1'] by (simp_all add: x1_def)
  have x2: "0 \<le> x2" "x2 \<le> q2 * D + 1 / 131072"
    using fl32_upper [OF p2(1) p2'] by (simp_all add: x2_def)
  have m1: "fmul (normalized_alpha p) (float_of_uchar c) = Finite x1"
    using p1 p1' by (simp add: a1 fc x1_def round32_finite)
  have m2: "fmul (fsub (Finite 1) (normalized_alpha p)) (float_of_uchar d) = Finite x2"
    using p2 p2' by (simp add: a2 fd x2_def round32_finite)
  have s: "0 \<le> x1 + x2" "x1 + x2 \<le> 255 + 255 / 16777216 + 1 / 65536"
    using x1 x2 p1 p2 q1 q2 by linarith+
  then have s': "x1 + x2 < 256" by linarith
  have r: "0 \<le> fl32 (x1 + x2)" "fl32 (x1 + x2) \<le> x1 + x2 + 1 / 131072"
    using fl32_upper [OF s(1) s'] by simp_all
  have "fl32 (x1 + x2) < 256" using r s by linarith
  moreover have "fadd (Finite x1) (Finite x2) = Finite (fl32 (x1 + x2))"
    using s s' by (simp add: round32_finite)
  ultimately show ?thesis
    using that [of "fl32 (x1 + x2)"] r(1) m1 m2 by simp
qed

lemma mix_stored:
  obtains r where
    "fadd (fmul (normalized_alpha p) (float_of_uchar c))
          (fmul (fsub (Finite 1) (normalized_alpha p)) (float_of_uchar d)) = Finite r"
    and "0 \<le> r" and "r < 256" and "uint (mix (normalized_alpha p) c d) = \<lfloor>r\<rfloor>"
proof -
  obtain r where r: "fadd (fmul (normalized_alpha p) (float_of_uchar c))
          (fmul (fsub (Finite 1) (normalized_alpha p)) (float_of_uchar d)) = Finite r"
    "0 \<le> r" "r < 256"
    by (rule mix_in_range)
  have "0 \<le> \<lfloor>r\<rfloor>" "\<lfloor>r\<rfloor> < 256"
    using r(2,3) by (simp_all add: floor_less_iff)
  then have "uint (word_of_int \<lfloor>r\<rfloor> :: uchar) = \<lfloor>r\<rfloor>"
    by (simp add: uint_word_of_int)
  then have "uint (mix (normalized_alpha p) c d) = \<lfloor>r\<rfloor>"
    using r(1,2) by (simp add: mix_def trunc_def)
  with r show ?thesis using that by blast
qed

lemma normalized_alpha_transparent: "ch3 p = 0 \<Longrightarrow> normalized_alpha p = Finite 0"
  by (simp add: normalized_alpha_value fl32_zero)

lemma alpha_one_or_below:
  "normalized_alpha p = Finite 1 \<or> flt (normalized_alpha p) (Finite 1)"
  by (cases "ch3 p = 255") (simp_all add: normalized_alpha_opaque alpha_below_one_iff)

lemma alpha_zero_or_above:
  "normalized_alpha p = Finite 0 \<or> fgt (normalized_alpha p) (Finite 0)"
  by (cases "ch3 p = 0") (simp_all add: normalized_alpha_transparent alpha_above_zero_iff)

lemma blend_px_bytes:
  "blend_px p q =
     (if ch3 p \<noteq> 255 \<and> ch3 q \<noteq> 0
      then Vec4b (mix (normalized_alpha p) (ch0 p) (ch0 q))
                 (mix (normalized_alpha p) (ch1 p) (ch1 q))
                 (mix (normalized_alpha p) (ch2 p) (ch2 q)) 255
      else p)"
  by (simp add: blend_px_def Let_def alpha_below_one_iff alpha_above_zero_iff)

section \<open>The compositing rule\<close>

text \<open>
  C1. In the compositing loop, every pixel inside the image ends as the rule of the
  specification says: where the primary's normalised alpha is below one and the
  adjusted secondary's alpha is above zero, each colour channel is
  \<open>a1 * primary + (1 - a1) * secondary\<close> and alpha is \<open>255\<close>; in every other case
  the primary pixel is unchanged.
\<close>

theorem combine_loop_rule:
  assumes "rect img" and "same_size adj img" and "y < rows img" and "x < cols img"
  shows "mat_at (combine_loop adj img) y x = spec_blend (mat_at img y x) (mat_at adj y x)"
  using combine_loop_props(4) [OF assms(1), of adj y x] assms(3,4)
  by (simp add: blend_px_spec)

theorem combine_loop_rule_witness:
  "rect [[Vec4b 100 100 100 128, Vec4b 9 9 9 255]]
   \<and> same_size [[Vec4b 200 200 200 255, Vec4b 7 7 7 255]] [[Vec4b 100 100 100 128, Vec4b 9 9 9 255]]
   \<and> (0::nat) < rows [[Vec4b 100 100 100 128, Vec4b 9 9 9 255]]
   \<and> (0::nat) < cols [[Vec4b 100 100 100 128, Vec4b 9 9 9 255]]
   \<and> mat_at (combine_loop [[Vec4b 200 200 200 255, Vec4b 7 7 7 255]]
               [[Vec4b 100 100 100 128, Vec4b 9 9 9 255]]) 0 0 = Vec4b 149 149 149 255"
proof -
  let ?img = "[[Vec4b 100 100 100 128, Vec4b 9 9 9 255]]"
  let ?adj = "[[Vec4b 200 200 200 255, Vec4b 7 7 7 255]]"
  have h: "rect ?img" "same_size ?adj ?img" "(0::nat) < rows ?img" "(0::nat) < cols ?img"
    by (simp_all add: rect_def same_size_def rows_def cols_def)
  have "mat_at (combine_loop ?adj ?img) 0 0 = spec_blend (mat_at ?img 0 0) (mat_at ?adj 0 0)"
    by (rule combine_loop_rule [OF h])
  also have "\<dots> = Vec4b 149 149 149 255"
    by (simp add: mat_at_def spec_blend_def normalized_alpha_def float_of_uchar_def
        round32_examples mix_example fgt_def)
  finally show ?thesis using h by simp
qed

section \<open>The size check and the engine\<close>




section \<open>When the files are written\<close>

text \<open>
  C4, as the code has it. In a run that returns a result the calls are, in this order:
  the inputs, the working images, the previous frame's data, the engine; then the
  three files for the next frame, when enabled (lines 112 to 117); then the size
  check, the warp matrix and the remapping; then the three debug images of the
  working images and of the warped image, when enabled (lines 137 to 141); then the
  colour model, the compositing loop and the alpha channel made again; and last the
  debug image of the combined result, when enabled. Only this last file is written
  after the result is computed.
\<close>

theorem order_of_writes:
  fixes env :: collaborators and fs :: int
    and cam cam2 :: CameraMetadata and raw raw2 m m2 :: "Vec3b mat"
  defines "I0 \<equiv> masked env fs cam raw m"
    and "I1 \<equiv> working_secondary env fs cam2 raw2 m2"
  assumes loaded: "inputs_loaded env w i p cams cam cam2 raw raw2 m m2"
    and run: "combineBottomImagesWithPoleRemoval env i p prev out dbg seed alg fs cams w = (Inr res, w')"
  shows "\<exists>pf p1 p2 E.
      previous_frame_data w prev pf p1 p2 \<and> makeOpticalFlowByName env alg = Some E
      \<and> res = (cam, combined env fs cam I0 (warped env I0 I1 (E I0 I1 pf p1 p2 DOWN)))
      \<and> new_events w w' =
          load_trace i p cam cam2 @ working_trace cam2 @ previous_trace prev @
          engine_trace alg I0 I1 pf p1 p2 @
          seed_trace seed out (E I0 I1 pf p1 p2 DOWN) I0 I1 @
          warp_trace @
          debug_trace dbg out I0 I1 (warped env I0 I1 (E I0 I1 pf p1 p2 DOWN)) @
          composite_trace @
          combined_trace dbg out (snd res)"
  using loaded run
proof (cases rule: after_load_cases)
  case (success pf p1 p2 E)
  then show ?thesis
    unfolding I0_def I1_def by (intro exI [of _ pf] exI [of _ p1] exI [of _ p2] exI [of _ E]) auto
qed simp_all

text \<open>
  The claim C4 as stated fails: in a run that returns a result, the flow and the two
  working images are written for the next frame before the warp, the colour model and
  the compositing loop have run.
\<close>

theorem writes_follow_result_counterexample:
  "fst (example_run ''NONE'' False True example_disk) =
     Inr (example_cam, [[Vec4b 4 5 6 255, Vec4b 40 50 60 255]])
   \<and> new_events example_disk (snd (example_run ''NONE'' False True example_disk)) =
     [Call_getBottomCamModel Primary, Call_getBottomCamModel Secondary,
      Call_imread ''img/cam15.png'' 1, Call_imread ''img/cam16.png'' 1,
      Call_imread ''mask/cam15.png'' 1, Call_imread ''mask/cam16.png'' 1,
      Call_cvtColor Primary, Call_cvtColor Secondary,
      Call_circleAlphaCut Primary, Call_circleAlphaCut Secondary,
      Call_cutRedMaskOutOfAlphaChannel Primary, Call_cutRedMaskOutOfAlphaChannel Secondary,
      Call_featherAlphaChannel Primary, Call_featherAlphaChannel Secondary,
      Call_flip Secondary,
      Call_makeOpticalFlowByName ''pixflow'',
      Call_computeOpticalFlow [[Vec4b 10 20 30 0, Vec4b 40 50 60 255]]
        [[Vec4b 4 5 6 255, Vec4b 1 2 3 0]] [] Mat0 Mat0 DOWN,
      Call_saveFlowToFile ''out/flow/flow_bottom_secondary.bin''
        [[Point2f (Finite 0) (Finite 0), Point2f (Finite 0) (Finite 0)]],
      Call_imwrite ''out/flow_images/bottomImage.png'' [[Vec4b 10 20 30 0, Vec4b 40 50 60 255]],
      Call_imwrite ''out/flow_images/bottomImage2.png'' [[Vec4b 4 5 6 255, Vec4b 1 2 3 0]],
      Assert_same_size, Loop_warpMat, Call_remap CV_INTER_CUBIC BORDER_CONSTANT,
      Call_buildColorAdjustmentModel, Call_applyColorAdjustmentModel, Loop_combine,
      Call_circleAlphaCut Primary, Call_featherAlphaChannel Primary]"
proof -
  have wr: "\<not> write_fails example_disk path" for path
    by (simp add: example_disk_def)
  show ?thesis
    unfolding example_run_def
    using run_succeeds [OF example_loaded no_previous_frame example_engine _ example_same_size,
        of True "''out''" False]
    by (simp add: wr masked_example working_secondary_example zero_flow_def trace_defs
        example_cam_simps warped_example combined_example)
qed

theorem order_of_writes_witness:
  "inputs_loaded example_env example_disk ''img'' ''mask'' [example_cam, example_cam2]
     example_cam example_cam2 [[Vec3b 10 20 30, Vec3b 40 50 60]] [[Vec3b 1 2 3, Vec3b 4 5 6]]
     [[Vec3b 0 0 255, Vec3b 0 0 0]] [[Vec3b 0 0 255, Vec3b 0 0 0]]
   \<and> example_run ''NONE'' True True example_disk =
       (Inr (example_cam, [[Vec4b 4 5 6 255, Vec4b 40 50 60 255]]),
        snd (example_run ''NONE'' True True example_disk))
   \<and> new_events example_disk (snd (example_run ''NONE'' True True example_disk)) =
     [Call_getBottomCamModel Primary, Call_getBottomCamModel Secondary,
      Call_imread ''img/cam15.png'' 1, Call_imread ''img/cam16.png'' 1,
      Call_imread ''mask/cam15.png'' 1, Call_imread ''mask/cam16.png'' 1,
      Call_cvtColor Primary, Call_cvtColor Secondary,
      Call_circleAlphaCut Primary, Call_circleAlphaCut Secondary,
      Call_cutRedMaskOutOfAlphaChannel Primary, Call_cutRedMaskOutOfAlphaChannel Secondary,
      Call_featherAlphaChannel Primary, Call_featherAlphaChannel Secondary,
      Call_flip Secondary,
      Call_makeOpticalFlowByName ''pixflow'',
      Call_computeOpticalFlow [[Vec4b 10 20 30 0, Vec4b 40 50 60 255]]
        [[Vec4b 4 5 6 255, Vec4b 1 2 3 0]] [] Mat0 Mat0 DOWN,
      Call_saveFlowToFile ''out/flow/flow_bottom_secondary.bin''
        [[Point2f (Finite 0) (Finite 0), Point2f (Finite 0) (Finite 0)]],
      Call_imwrite ''out/flow_images/bottomImage.png'' [[Vec4b 10 20 30 0, Vec4b 40 50 60 255]],
      Call_imwrite ''out/flow_images/bottomImage2.png'' [[Vec4b 4 5 6 255, Vec4b 1 2 3 0]],
      Assert_same_size, Loop_warpMat, Call_remap CV_INTER_CUBIC BORDER_CONSTANT,
      Call_imwrite ''out/bottomImage.png'' [[Vec4b 10 20 30 0, Vec4b 40 50 60 255]],
      Call_imwrite ''out/bottomImage2.png'' [[Vec4b 4 5 6 255, Vec4b 1 2 3 0]],
      Call_imwrite ''out/bottomWarp2.png'' [[Vec4b 4 5 6 255, Vec4b 1 2 3 0]],
      Call_buildColorAdjustmentModel, Call_applyColorAdjustmentModel, Loop_combine,
      Call_circleAlphaCut Primary, Call_featherAlphaChannel Primary,
      Call_imwrite ''out/_bottomCombined.png'' [[Vec4b 4 5 6 255, Vec4b 40 50 60 255]]]"
proof -
  let ?w' = "snd (example_run ''NONE'' True True example_disk)"
  have run: "combineBottomImagesWithPoleRemoval example_env ''img'' ''mask'' ''NONE'' ''out'' True True
      ''pixflow'' 5 [example_cam, example_cam2] example_disk =
      (Inr (example_cam, [[Vec4b 4 5 6 255, Vec4b 40 50 60 255]]), ?w')"
    using example_run_succeeds [of True True] by (simp add: example_run_def)
  obtain pf p1 p2 E where
    prev: "previous_frame_data example_disk ''NONE'' pf p1 p2"
    and E: "makeOpticalFlowByName example_env ''pixflow'' = Some E"
    and evs: "new_events example_disk ?w' =
          load_trace ''img'' ''mask'' example_cam example_cam2 @ working_trace example_cam2 @
          previous_trace ''NONE'' @
          engine_trace ''pixflow''
            (masked example_env 5 example_cam [[Vec3b 10 20 30, Vec3b 40 50 60]]
               [[Vec3b 0 0 255, Vec3b 0 0 0]])
            (working_secondary example_env 5 example_cam2 [[Vec3b 1 2 3, Vec3b 4 5 6]]
               [[Vec3b 0 0 255, Vec3b 0 0 0]]) pf p1 p2 @
          seed_trace True ''out''
            (E (masked example_env 5 example_cam [[Vec3b 10 20 30, Vec3b 40 50 60]]
                  [[Vec3b 0 0 255, Vec3b 0 0 0]])
               (working_secondary example_env 5 example_cam2 [[Vec3b 1 2 3, Vec3b 4 5 6]]
                  [[Vec3b 0 0 255, Vec3b 0 0 0]]) pf p1 p2 DOWN)
            (masked example_env 5 example_cam [[Vec3b 10 20 30, Vec3b 40 50 60]]
               [[Vec3b 0 0 255, Vec3b 0 0 0]])
            (working_secondary example_env 5 example_cam2 [[Vec3b 1 2 3, Vec3b 4 5 6]]
               [[Vec3b 0 0 255, Vec3b 0 0 0]]) @
          warp_trace @
          debug_trace True ''out''
            (masked example_env 5 example_cam [[Vec3b 10 20 30, Vec3b 40 50 60]]
               [[Vec3b 0 0 255, Vec3b 0 0 0]])
            (working_secondary example_env 5 example_cam2 [[Vec3b 1 2 3, Vec3b 4 5 6]]
               [[Vec3b 0 0 255, Vec3b 0 0 0]])
            (warped example_env
               (masked example_env 5 example_cam [[Vec3b 10 20 30, Vec3b 40 50 60]]
                  [[Vec3b 0 0 255, Vec3b 0 0 0]])
               (working_secondary example_env 5 example_cam2 [[Vec3b 1 2 3, Vec3b 4 5 6]]
                  [[Vec3b 0 0 255, Vec3b 0 0 0]])
               (E (masked example_env 5 example_cam [[Vec3b 10 20 30, Vec3b 40 50 60]]
                     [[Vec3b 0 0 255, Vec3b 0 0 0]])
                  (working_secondary example_env 5 example_cam2 [[Vec3b 1 2 3, Vec3b 4 5 6]]
                     [[Vec3b 0 0 255, Vec3b 0 0 0]]) pf p1 p2 DOWN)) @
          composite_trace @
          combined_trace True ''out'' [[Vec4b 4 5 6 255, Vec4b 40 50 60 255]]"
    using order_of_writes [OF example_loaded run] by auto
  have "pf = []" "p1 = Mat0" "p2 = Mat0" "E = zero_flow"
    using prev E by (simp_all add: previous_frame_data_def example_engine)
  then show ?thesis
    using example_loaded example_run_succeeds [of True True] evs
    by (simp add: masked_example working_secondary_example zero_flow_def trace_defs
        example_cam_simps warped_example)
qed

section \<open>What the engine is given\<close>

text \<open>
  C8. Every call of the engine in a run carries the direction hint \<open>DOWN\<close> and, as
  its prior inputs, the flow and the two working images read from the previous
  frame's directory when one is given, and an empty field and two empty images
  (\<^verbatim>\<open>Mat()\<close>) when the directory is \<^verbatim>\<open>"NONE"\<close>; a run that returns
  a result has called the engine.
\<close>

theorem engine_prior_inputs:
  assumes loaded: "inputs_loaded env w i p cams cam cam2 raw raw2 m m2"
    and run: "combineBottomImagesWithPoleRemoval env i p prev out dbg seed alg fs cams w = (r, w')"
  shows "(\<forall>J0 J1 qf q1 q2 h.
            Call_computeOpticalFlow J0 J1 qf q1 q2 h \<in> set (new_events w w') \<longrightarrow>
            h = DOWN
            \<and> (if prev \<noteq> ''NONE''
               then decode_flow (files w (prev @ ''/flow/flow_bottom_secondary.bin'')) = Some qf
                  \<and> decode_unchanged (files w (prev @ ''/flow_images/bottomImage.png'')) = Some q1
                  \<and> decode_unchanged (files w (prev @ ''/flow_images/bottomImage2.png'')) = Some q2
               else qf = [] \<and> q1 = Mat0 \<and> q2 = Mat0))
    \<and> ((\<exists>res. r = Inr res) \<longrightarrow>
         (\<exists>J0 J1 qf q1 q2. Call_computeOpticalFlow J0 J1 qf q1 q2 DOWN \<in> set (new_events w w')))"
proof (intro conjI allI impI)
  fix J0 J1 qf q1 q2 h
  assume "Call_computeOpticalFlow J0 J1 qf q1 q2 h \<in> set (new_events w w')"
  from engine_call_args [OF loaded run this]
  show "h = DOWN" and "if prev \<noteq> ''NONE''
               then decode_flow (files w (prev @ ''/flow/flow_bottom_secondary.bin'')) = Some qf
                  \<and> decode_unchanged (files w (prev @ ''/flow_images/bottomImage.png'')) = Some q1
                  \<and> decode_unchanged (files w (prev @ ''/flow_images/bottomImage2.png'')) = Some q2
               else qf = [] \<and> q1 = Mat0 \<and> q2 = Mat0"
    by (simp_all add: previous_frame_data_def)
next
  assume "\<exists>res. r = Inr res"
  then obtain res where "r = Inr res" ..
  with run have "combineBottomImagesWithPoleRemoval env i p prev out dbg seed alg fs cams w = (Inr res, w')"
    by simp
  from engine_called_on_success [OF loaded this]
  show "\<exists>J0 J1 qf q1 q2. Call_computeOpticalFlow J0 J1 qf q1 q2 DOWN \<in> set (new_events w w')"
    by blast
qed

theorem engine_prior_inputs_witness:
  "inputs_loaded example_env seeded_disk ''img'' ''mask'' [example_cam, example_cam2]
     example_cam example_cam2 [[Vec3b 10 20 30, Vec3b 40 50 60]] [[Vec3b 1 2 3, Vec3b 4 5 6]]
     [[Vec3b 0 0 255, Vec3b 0 0 0]] [[Vec3b 0 0 255, Vec3b 0 0 0]]
   \<and> Call_computeOpticalFlow [[Vec4b 10 20 30 0, Vec4b 40 50 60 255]]
       [[Vec4b 4 5 6 255, Vec4b 1 2 3 0]]
       [[Point2f (Finite 1) (Finite 0), Point2f (Finite 1) (Finite 0)]]
       (Mat8UC4 [[Vec4b 9 9 9 255, Vec4b 8 8 8 255]])
       (Mat8UC4 [[Vec4b 7 7 7 255, Vec4b 6 6 6 255]]) DOWN
     \<in> set (new_events seeded_disk (snd (example_run ''prev'' False False seeded_disk)))
   \<and> decode_flow (files seeded_disk ''prev/flow/flow_bottom_secondary.bin'') =
       Some [[Point2f (Finite 1) (Finite 0), Point2f (Finite 1) (Finite 0)]]
   \<and> decode_unchanged (files seeded_disk ''prev/flow_images/bottomImage.png'') =
       Some (Mat8UC4 [[Vec4b 9 9 9 255, Vec4b 8 8 8 255]])
   \<and> decode_unchanged (files seeded_disk ''prev/flow_images/bottomImage2.png'') =
       Some (Mat8UC4 [[Vec4b 7 7 7 255, Vec4b 6 6 6 255]])"
proof -
  let ?R = "example_run ''prev'' False False seeded_disk"
  have run: "combineBottomImagesWithPoleRemoval example_env ''img'' ''mask'' ''prev'' ''out'' False False
      ''pixflow'' 5 [example_cam, example_cam2] seeded_disk = (fst ?R, snd ?R)"
    by (simp add: example_run_def)
  have call: "Call_computeOpticalFlow [[Vec4b 10 20 30 0, Vec4b 40 50 60 255]]
       [[Vec4b 4 5 6 255, Vec4b 1 2 3 0]]
       [[Point2f (Finite 1) (Finite 0), Point2f (Finite 1) (Finite 0)]]
       (Mat8UC4 [[Vec4b 9 9 9 255, Vec4b 8 8 8 255]])
       (Mat8UC4 [[Vec4b 7 7 7 255, Vec4b 6 6 6 255]]) DOWN
     \<in> set (new_events seeded_disk (snd ?R))"
    by (simp add: seeded_run_events engine_trace_def)
  from engine_prior_inputs [OF seeded_loaded run] call
  have "decode_flow (files seeded_disk (''prev'' @ ''/flow/flow_bottom_secondary.bin'')) =
         Some [[Point2f (Finite 1) (Finite 0), Point2f (Finite 1) (Finite 0)]]
       \<and> decode_unchanged (files seeded_disk (''prev'' @ ''/flow_images/bottomImage.png'')) =
         Some (Mat8UC4 [[Vec4b 9 9 9 255, Vec4b 8 8 8 255]])
       \<and> decode_unchanged (files seeded_disk (''prev'' @ ''/flow_images/bottomImage2.png'')) =
         Some (Mat8UC4 [[Vec4b 7 7 7 255, Vec4b 6 6 6 255]])"
    by fastforce
  then show ?thesis
    using seeded_loaded call by simp
qed

section \<open>The pass after the compositing loop\<close>

text \<open>
  C9. In a run that returns a result, the result is the combined image of the
  compositing loop after one circle cut with the primary camera's usable radius and
  one feathering; the calls after the loop are exactly that circle cut and that
  feathering (then only the optional debug image is written), and the loop itself
  runs once.
\<close>

theorem recut_once_after_blend:
  fixes env :: collaborators and fs :: int
    and cam cam2 :: CameraMetadata and raw raw2 m m2 :: "Vec3b mat"
  defines "I0 \<equiv> masked env fs cam raw m"
  assumes loaded: "inputs_loaded env w i p cams cam cam2 raw raw2 m m2"
    and run: "combineBottomImagesWithPoleRemoval env i p prev out dbg seed alg fs cams w = (Inr res, w')"
  shows "\<exists>pre wp.
      snd res =
        featherAlphaChannel env
          (circleAlphaCut env
             (combine_loop
                (applyColorAdjustmentModel env wp (buildColorAdjustmentModel env I0 wp)) I0)
             (usablePixelsRadius cam))
          fs
      \<and> new_events w w' =
          pre @ [Loop_combine, Call_circleAlphaCut Primary, Call_featherAlphaChannel Primary] @
          combined_trace dbg out (snd res)
      \<and> Loop_combine \<notin> set pre"
  using loaded run
proof (cases rule: after_load_cases)
  case (success pf p1 p2 E)
  let ?I1 = "working_secondary env fs cam2 raw2 m2"
  let ?flow = "E I0 ?I1 pf p1 p2 DOWN"
  let ?wp = "warped env I0 ?I1 ?flow"
  let ?pre = "load_trace i p cam cam2 @ working_trace cam2 @ previous_trace prev @
      engine_trace alg I0 ?I1 pf p1 p2 @ seed_trace seed out ?flow I0 ?I1 @ warp_trace @
      debug_trace dbg out I0 ?I1 ?wp @
      [Call_buildColorAdjustmentModel, Call_applyColorAdjustmentModel]"
  have "snd res = featherAlphaChannel env
          (circleAlphaCut env
             (combine_loop
                (applyColorAdjustmentModel env ?wp (buildColorAdjustmentModel env I0 ?wp)) I0)
             (usablePixelsRadius cam)) fs"
    using success(4) by (simp add: I0_def combined_def recut_def)
  moreover have "new_events w w' =
      ?pre @ [Loop_combine, Call_circleAlphaCut Primary, Call_featherAlphaChannel Primary] @
      combined_trace dbg out (snd res)"
    using success(4,5) by (simp add: I0_def composite_trace_def)
  moreover have "Loop_combine \<notin> set ?pre"
    by (simp add: trace_defs)
  ultimately show ?thesis by blast
qed simp_all

theorem recut_once_after_blend_witness:
  "inputs_loaded example_env example_disk ''img'' ''mask'' [example_cam, example_cam2]
     example_cam example_cam2 [[Vec3b 10 20 30, Vec3b 40 50 60]] [[Vec3b 1 2 3, Vec3b 4 5 6]]
     [[Vec3b 0 0 255, Vec3b 0 0 0]] [[Vec3b 0 0 255, Vec3b 0 0 0]]
   \<and> example_run ''NONE'' False False example_disk =
       (Inr (example_cam, [[Vec4b 4 5 6 255, Vec4b 40 50 60 255]]),
        snd (example_run ''NONE'' False False example_disk))
   \<and> (\<exists>pre wp.
        [[Vec4b 4 5 6 255, Vec4b 40 50 60 255]] =
          featherAlphaChannel example_env
            (circleAlphaCut example_env
               (combine_loop
                  (applyColorAdjustmentModel example_env wp
                     (buildColorAdjustmentModel example_env
                        (masked example_env 5 example_cam [[Vec3b 10 20 30, Vec3b 40 50 60]]
                           [[Vec3b 0 0 255, Vec3b 0 0 0]]) wp))
                  (masked example_env 5 example_cam [[Vec3b 10 20 30, Vec3b 40 50 60]]
                     [[Vec3b 0 0 255, Vec3b 0 0 0]]))
               (usablePixelsRadius example_cam))
            5
        \<and> new_events example_disk (snd (example_run ''NONE'' False False example_disk)) =
            pre @ [Loop_combine, Call_circleAlphaCut Primary, Call_featherAlphaChannel Primary]
        \<and> Loop_combine \<notin> set pre)"
proof -
  have run: "combineBottomImagesWithPoleRemoval example_env ''img'' ''mask'' ''NONE'' ''out'' False False
      ''pixflow'' 5 [example_cam, example_cam2] example_disk =
      (Inr (example_cam, [[Vec4b 4 5 6 255, Vec4b 40 50 60 255]]),
       snd (example_run ''NONE'' False False example_disk))"
    using example_run_succeeds [of False False] by (simp add: example_run_def)
  show ?thesis
    using recut_once_after_blend [OF example_loaded run] example_loaded
      example_run_succeeds [of False False]
    by (simp add: combined_trace_def)
qed

section \<open>The rotation of the second image\<close>

text \<open>
  C3, as the code has it. Only the second camera's \<^verbatim>\<open>flip180\<close> is looked at.
  Its working image is rotated after the alpha channel, the circle cut, the mask cut
  and the feathering (line 81 follows lines 66 to 77), and before the engine is
  called; the first camera's image is never rotated. So the engine gets the masked
  first image and, when \<^verbatim>\<open>flip180\<close> is set, the rotation of the masked second
  image, whose colour at \<open>(y, x)\<close> is the raw file's colour at the opposite pixel.
\<close>

theorem flip_follows_masking:
  assumes loaded: "inputs_loaded env w i p cams cam cam2 raw raw2 m m2"
    and run: "combineBottomImagesWithPoleRemoval env i p prev out dbg seed alg fs cams w = (r, w')"
  shows "(\<exists>rest. new_events w w' =
            load_trace i p cam cam2 @
            [Call_cvtColor Primary, Call_cvtColor Secondary,
             Call_circleAlphaCut Primary, Call_circleAlphaCut Secondary,
             Call_cutRedMaskOutOfAlphaChannel Primary, Call_cutRedMaskOutOfAlphaChannel Secondary,
             Call_featherAlphaChannel Primary, Call_featherAlphaChannel Secondary] @
            (if flip180 cam2 then [Call_flip Secondary] else []) @ rest
          \<and> Call_flip Primary \<notin> set rest \<and> Call_flip Secondary \<notin> set rest)
    \<and> (\<forall>J0 J1 qf q1 q2 h.
          Call_computeOpticalFlow J0 J1 qf q1 q2 h \<in> set (new_events w w') \<longrightarrow>
          J0 = masked env fs cam raw m
          \<and> J1 = (if flip180 cam2 then flip_both (masked env fs cam2 raw2 m2)
                  else masked env fs cam2 raw2 m2)
          \<and> (flip180 cam2 \<and> rect raw2 \<longrightarrow>
              (\<forall>y x. y < rows raw2 \<and> x < cols raw2 \<longrightarrow>
                 color_of (mat_at J1 y x) = mat_at raw2 (rows raw2 - 1 - y) (cols raw2 - 1 - x))))"
proof (intro conjI allI impI)
  show "\<exists>rest. new_events w w' =
            load_trace i p cam cam2 @
            [Call_cvtColor Primary, Call_cvtColor Secondary,
             Call_circleAlphaCut Primary, Call_circleAlphaCut Secondary,
             Call_cutRedMaskOutOfAlphaChannel Primary, Call_cutRedMaskOutOfAlphaChannel Secondary,
             Call_featherAlphaChannel Primary, Call_featherAlphaChannel Secondary] @
            (if flip180 cam2 then [Call_flip Secondary] else []) @ rest
          \<and> Call_flip Primary \<notin> set rest \<and> Call_flip Secondary \<notin> set rest"
    using run_starts_with_working [OF loaded run] by (simp add: working_trace_def)
next
  fix J0 J1 qf q1 q2 h
  assume call: "Call_computeOpticalFlow J0 J1 qf q1 q2 h \<in> set (new_events w w')"
  note args = engine_call_args [OF loaded run call]
  show "J0 = masked env fs cam raw m" using args by simp
  show J1: "J1 = (if flip180 cam2 then flip_both (masked env fs cam2 raw2 m2)
                  else masked env fs cam2 raw2 m2)"
    using args by (simp add: working_secondary_def flipped_if_def)
  fix y x
  assume f: "flip180 cam2 \<and> rect raw2" and yx: "y < rows raw2 \<and> x < cols raw2"
  let ?M = "masked env fs cam2 raw2 m2"
  have M: "rect ?M" "rows ?M = rows raw2" "cols ?M = cols raw2"
    using f by (simp_all add: rect_masked masked_size)
  have "mat_at J1 y x = mat_at ?M (rows raw2 - 1 - y) (cols raw2 - 1 - x)"
    using J1 f yx M mat_at_flip_both [of ?M y x] by simp
  moreover have "rows raw2 - 1 - y < rows raw2" "cols raw2 - 1 - x < cols raw2"
    using yx by simp_all
  ultimately show "color_of (mat_at J1 y x) = mat_at raw2 (rows raw2 - 1 - y) (cols raw2 - 1 - x)"
    using f by (simp add: color_of_masked)
qed

text \<open>
  The claim C3 as stated fails: the rotation is the last of the calls on the second
  image, after the mask cut and the feathering, and the image the engine gets is not
  the one that rotating first and masking afterwards would give.
\<close>

theorem rotate_before_masking_counterexample:
  "new_events example_disk (snd (example_run ''NONE'' False False example_disk)) =
     [Call_getBottomCamModel Primary, Call_getBottomCamModel Secondary,
      Call_imread ''img/cam15.png'' 1, Call_imread ''img/cam16.png'' 1,
      Call_imread ''mask/cam15.png'' 1, Call_imread ''mask/cam16.png'' 1,
      Call_cvtColor Primary, Call_cvtColor Secondary,
      Call_circleAlphaCut Primary, Call_circleAlphaCut Secondary,
      Call_cutRedMaskOutOfAlphaChannel Primary, Call_cutRedMaskOutOfAlphaChannel Secondary,
      Call_featherAlphaChannel Primary, Call_featherAlphaChannel Secondary,
      Call_flip Secondary,
      Call_makeOpticalFlowByName ''pixflow'',
      Call_computeOpticalFlow [[Vec4b 10 20 30 0, Vec4b 40 50 60 255]]
        [[Vec4b 4 5 6 255, Vec4b 1 2 3 0]] [] Mat0 Mat0 DOWN,
      Assert_same_size, Loop_warpMat, Call_remap CV_INTER_CUBIC BORDER_CONSTANT,
      Call_buildColorAdjustmentModel, Call_applyColorAdjustmentModel, Loop_combine,
      Call_circleAlphaCut Primary, Call_featherAlphaChannel Primary]
   \<and> masked example_env 5 example_cam2 (flip_both [[Vec3b 1 2 3, Vec3b 4 5 6]])
         [[Vec3b 0 0 255, Vec3b 0 0 0]] = [[Vec4b 4 5 6 0, Vec4b 1 2 3 255]]
   \<and> [[Vec4b 4 5 6 255, Vec4b 1 2 3 0]] \<noteq> [[Vec4b 4 5 6 0, Vec4b 1 2 3 (255 :: uchar)]]"
proof -
  have "masked example_env 5 example_cam2 (flip_both [[Vec3b 1 2 3, Vec3b 4 5 6]])
         [[Vec3b 0 0 255, Vec3b 0 0 0]] = [[Vec4b 4 5 6 0, Vec4b 1 2 3 255]]"
    by (simp add: flip_both_def masked_def featherAlphaChannel_def cutRedMaskOutOfAlphaChannel_def
        circleAlphaCut_def cvtColor_BGR2BGRA_def map_px_def enumerate_eq_zip example_env_def
        mat_at_def with_alpha_def)
  then show ?thesis
    using example_run_events by simp
qed

theorem flip_follows_masking_witness:
  "inputs_loaded example_env example_disk ''img'' ''mask'' [example_cam, example_cam2]
     example_cam example_cam2 [[Vec3b 10 20 30, Vec3b 40 50 60]] [[Vec3b 1 2 3, Vec3b 4 5 6]]
     [[Vec3b 0 0 255, Vec3b 0 0 0]] [[Vec3b 0 0 255, Vec3b 0 0 0]]
   \<and> Call_computeOpticalFlow [[Vec4b 10 20 30 0, Vec4b 40 50 60 255]]
        [[Vec4b 4 5 6 255, Vec4b 1 2 3 0]] [] Mat0 Mat0 DOWN
       \<in> set (new_events example_disk (snd (example_run ''NONE'' False False example_disk)))
   \<and> flip180 example_cam2 \<and> rect [[Vec3b 1 2 3, Vec3b 4 5 6]]
   \<and> (0::nat) < rows [[Vec3b 1 2 3, Vec3b 4 5 6]] \<and> (0::nat) < cols [[Vec3b 1 2 3, Vec3b 4 5 6]]
   \<and> [[Vec4b 4 5 6 255, Vec4b 1 2 3 0]] =
       flip_both (masked example_env 5 example_cam2 [[Vec3b 1 2 3, Vec3b 4 5 6]]
                    [[Vec3b 0 0 255, Vec3b 0 0 0]])
   \<and> color_of (mat_at [[Vec4b 4 5 6 255, Vec4b 1 2 3 0]] 0 0) =
       mat_at [[Vec3b 1 2 3, Vec3b 4 5 6]] (rows [[Vec3b 1 2 3, Vec3b 4 5 6]] - 1 - 0)
         (cols [[Vec3b 1 2 3, Vec3b 4 5 6]] - 1 - 0)"
proof -
  let ?R = "example_run ''NONE'' False False example_disk"
  let ?raw2 = "[[Vec3b 1 2 3, Vec3b 4 5 6]]"
  have run: "combineBottomImagesWithPoleRemoval example_env ''img'' ''mask'' ''NONE'' ''out'' False False
      ''pixflow'' 5 [example_cam, example_cam2] example_disk = (fst ?R, snd ?R)"
    by (simp add: example_run_def)
  have call: "Call_computeOpticalFlow [[Vec4b 10 20 30 0, Vec4b 40 50 60 255]]
        [[Vec4b 4 5 6 255, Vec4b 1 2 3 0]] [] Mat0 Mat0 DOWN \<in> set (new_events example_disk (snd ?R))"
    by (simp add: example_run_events)
  have h: "flip180 example_cam2" "rect ?raw2" "(0::nat) < rows ?raw2" "(0::nat) < cols ?raw2"
    by (simp_all add: example_cam_simps rect_def rows_def cols_def)
  from flip_follows_masking [OF example_loaded run] call h
  have "[[Vec4b 4 5 6 255, Vec4b 1 2 3 0]] =
       flip_both (masked example_env 5 example_cam2 ?raw2 [[Vec3b 0 0 255, Vec3b 0 0 0]])
     \<and> color_of (mat_at [[Vec4b 4 5 6 255, Vec4b 1 2 3 0]] 0 0) =
       mat_at ?raw2 (rows ?raw2 - 1 - 0) (cols ?raw2 - 1 - 0)"
    by fastforce
  then show ?thesis
    using example_loaded call h by blast
qed

section \<open>A pole mask that is missing or empty\<close>

text \<open>
  C6. When the two cameras are found and either pole mask is absent or has zero rows
  or zero columns, the call fails with a MissingResourceError before any call that
  computes on pixels, and writes nothing; when all four files can be read it is the
  exception of line 61.
\<close>

theorem bad_mask_stops_before_pixels:
  assumes cam: "getBottomCamModel env cams = Some cam"
    and cam2: "getBottomCamModel2 env cams = Some cam2"
    and bad: "mask_unusable w (p @ ''/'' @ cameraId cam @ ''.png'')
              \<or> mask_unusable w (p @ ''/'' @ cameraId cam2 @ ''.png'')"
    and run: "combineBottomImagesWithPoleRemoval env i p prev out dbg seed alg fs cams w = (r, w')"
  shows "(\<exists>e. r = Inl e \<and> is_missing_resource e)
    \<and> (\<forall>ev \<in> set (new_events w w'). \<not> is_pixel_operation ev)
    \<and> files w' = files w
    \<and> (decode_color (files w (i @ ''/'' @ cameraId cam @ ''.png'')) \<noteq> None
       \<and> decode_color (files w (i @ ''/'' @ cameraId cam2 @ ''.png'')) \<noteq> None
       \<and> decode_color (files w (p @ ''/'' @ cameraId cam @ ''.png'')) \<noteq> None
       \<and> decode_color (files w (p @ ''/'' @ cameraId cam2 @ ''.png'')) \<noteq> None
       \<longrightarrow> r = Inl (VrCamException (''missing or bad pole mask:'' @ p @ ''/'' @ cameraId cam @ ''.png''
                  @ '','' @ p @ ''/'' @ cameraId cam2 @ ''.png'')))"
proof -
  from load_inputs_bad_mask [OF cam cam2 bad, of i]
  obtain e evs where l: "load_inputs env i p cams w = (Inl e, w\<lparr>events := events w @ evs\<rparr>)"
    and e: "is_missing_resource e" and evs: "prefix evs (load_trace i p cam cam2)"
    and msg: "decode_color (files w (i @ ''/'' @ cameraId cam @ ''.png'')) \<noteq> None
         \<and> decode_color (files w (i @ ''/'' @ cameraId cam2 @ ''.png'')) \<noteq> None
         \<and> decode_color (files w (p @ ''/'' @ cameraId cam @ ''.png'')) \<noteq> None
         \<and> decode_color (files w (p @ ''/'' @ cameraId cam2 @ ''.png'')) \<noteq> None
         \<longrightarrow> e = VrCamException (''missing or bad pole mask:'' @ (p @ ''/'' @ cameraId cam @ ''.png'')
                  @ '','' @ (p @ ''/'' @ cameraId cam2 @ ''.png''))"
    by blast
  have r: "r = Inl e" "w' = w\<lparr>events := events w @ evs\<rparr>"
    using run l by (simp_all add: combineBottomImagesWithPoleRemoval_def io_bind_def)
  have "\<forall>ev \<in> set (load_trace i p cam cam2). \<not> is_pixel_operation ev"
    by (simp add: load_trace_def)
  then have "\<forall>ev \<in> set evs. \<not> is_pixel_operation ev"
    using evs set_mono_prefix by blast
  then show ?thesis
    using r e msg by simp
qed

theorem bad_mask_stops_before_pixels_witness:
  "getBottomCamModel example_env [example_cam, example_cam2] = Some example_cam
   \<and> getBottomCamModel2 example_env [example_cam, example_cam2] = Some example_cam2
   \<and> mask_unusable bad_mask_disk (''mask'' @ ''/'' @ cameraId example_cam2 @ ''.png'')
   \<and> fst (combineBottomImagesWithPoleRemoval example_env ''img'' ''mask'' ''NONE'' ''out'' True True
         ''pixflow'' 5 [example_cam, example_cam2] bad_mask_disk) =
       Inl (VrCamException ''missing or bad pole mask:mask/cam15.png,mask/cam16.png'')
   \<and> files (snd (combineBottomImagesWithPoleRemoval example_env ''img'' ''mask'' ''NONE'' ''out'' True True
         ''pixflow'' 5 [example_cam, example_cam2] bad_mask_disk)) = files bad_mask_disk
   \<and> list_all (\<lambda>ev. \<not> is_pixel_operation ev)
        (new_events bad_mask_disk
          (snd (combineBottomImagesWithPoleRemoval example_env ''img'' ''mask'' ''NONE'' ''out'' True True
             ''pixflow'' 5 [example_cam, example_cam2] bad_mask_disk)))"
proof -
  let ?R = "combineBottomImagesWithPoleRemoval example_env ''img'' ''mask'' ''NONE'' ''out'' True True
         ''pixflow'' 5 [example_cam, example_cam2] bad_mask_disk"
  have run: "?R = (fst ?R, snd ?R)" by simp
  have c: "getBottomCamModel example_env [example_cam, example_cam2] = Some example_cam"
    "getBottomCamModel2 example_env [example_cam, example_cam2] = Some example_cam2"
    by (simp_all add: example_env_def)
  have bad: "mask_unusable bad_mask_disk (''mask'' @ ''/'' @ cameraId example_cam2 @ ''.png'')"
    by (simp add: mask_unusable_def bad_mask_disk_def example_cam_simps decode_color_def rows_def)
  have dec: "decode_color (files bad_mask_disk (''img'' @ ''/'' @ cameraId example_cam @ ''.png'')) \<noteq> None
       \<and> decode_color (files bad_mask_disk (''img'' @ ''/'' @ cameraId example_cam2 @ ''.png'')) \<noteq> None
       \<and> decode_color (files bad_mask_disk (''mask'' @ ''/'' @ cameraId example_cam @ ''.png'')) \<noteq> None
       \<and> decode_color (files bad_mask_disk (''mask'' @ ''/'' @ cameraId example_cam2 @ ''.png'')) \<noteq> None"
    by (simp add: bad_mask_disk_def example_cam_simps decode_color_def)
  note fact = bad_mask_stops_before_pixels [OF c disjI2 [OF bad] run]
  have "fst ?R = Inl (VrCamException ''missing or bad pole mask:mask/cam15.png,mask/cam16.png'')"
    using fact dec by (simp add: example_cam_simps)
  moreover have "files (snd ?R) = files bad_mask_disk"
    using fact by blast
  moreover have "list_all (\<lambda>ev. \<not> is_pixel_operation ev) (new_events bad_mask_disk (snd ?R))"
    using fact by (simp add: list_all_iff)
  ultimately show ?thesis
    using c bad by blast
qed

section \<open>The directory of the previous frame\<close>



section \<open>Pixels the primary image fully covers\<close>

text \<open>
  C5. Where the primary working image has alpha \<open>255\<close> before the compositing
  loop, the loop leaves the pixel as it is, and the combined image the function
  returns has the primary's colour there: the circle cut and the feathering after
  the loop change alpha only.
\<close>

theorem opaque_primary_keeps_color:
  assumes "composite env fs cam img wp w = (Inr out, w')"
    and "rect img" and "y < rows img" and "x < cols img"
    and "ch3 (mat_at img y x) = 255"
  shows "color_of (mat_at out y x) = color_of (mat_at img y x)
    \<and> mat_at (combine_loop
          (applyColorAdjustmentModel env wp (buildColorAdjustmentModel env img wp)) img) y x
        = mat_at img y x"
proof -
  let ?adj = "applyColorAdjustmentModel env wp (buildColorAdjustmentModel env img wp)"
  let ?c = "combine_loop ?adj img"
  have out: "out = recut env fs cam ?c"
    using assms(1) by (simp add: composite_run combined_def)
  have c: "rect ?c" "rows ?c = rows img" "cols ?c = cols img"
    using assms(2) by (simp_all add: combine_loop_props)
  have px: "mat_at ?c y x = mat_at img y x"
    using combine_loop_props(4) [OF assms(2), of ?adj y x] assms(3,4,5)
    by (simp add: blend_px_opaque)
  have "color_of (mat_at out y x) = color_of (mat_at ?c y x)"
    unfolding out using c assms(3,4) by (simp add: color_of_recut)
  with px show ?thesis by simp
qed

theorem opaque_primary_keeps_color_witness:
  "composite example_env 5 example_cam [[Vec4b 10 20 30 0, Vec4b 40 50 60 255]]
      [[Vec4b 4 5 6 255, Vec4b 1 2 3 0]] example_disk =
     (Inr [[Vec4b 4 5 6 255, Vec4b 40 50 60 255]],
      snd (composite example_env 5 example_cam [[Vec4b 10 20 30 0, Vec4b 40 50 60 255]]
             [[Vec4b 4 5 6 255, Vec4b 1 2 3 0]] example_disk))
   \<and> rect [[Vec4b 10 20 30 0, Vec4b 40 50 60 255]]
   \<and> (0::nat) < rows [[Vec4b 10 20 30 0, Vec4b 40 50 60 255]]
   \<and> (1::nat) < cols [[Vec4b 10 20 30 0, Vec4b 40 50 60 255]]
   \<and> ch3 (mat_at [[Vec4b 10 20 30 0, Vec4b 40 50 60 255]] 0 1) = 255
   \<and> color_of (mat_at [[Vec4b 4 5 6 255, Vec4b 40 50 60 255]] 0 1) =
       color_of (mat_at [[Vec4b 10 20 30 0, Vec4b 40 50 60 255]] 0 1)"
proof -
  let ?img = "[[Vec4b 10 20 30 0, Vec4b 40 50 60 255]]"
  let ?wp = "[[Vec4b 4 5 6 255, Vec4b 1 2 3 0]]"
  have run: "composite example_env 5 example_cam ?img ?wp example_disk =
     (Inr [[Vec4b 4 5 6 255, Vec4b 40 50 60 255]],
      snd (composite example_env 5 example_cam ?img ?wp example_disk))"
    by (simp add: composite_run combined_example)
  have h: "rect ?img" "(0::nat) < rows ?img" "(1::nat) < cols ?img" "ch3 (mat_at ?img 0 1) = 255"
    by (simp_all add: rect_def rows_def cols_def mat_at_def)
  from opaque_primary_keeps_color [OF run h]
  have "color_of (mat_at [[Vec4b 4 5 6 255, Vec4b 40 50 60 255]] 0 1) = color_of (mat_at ?img 0 1)"
    by simp
  then show ?thesis using run h by blast
qed

section \<open>The warp\<close>

text \<open>
  C7. When the size check passes, the warped image has the size of the primary
  image, and its pixel at \<open>(y, x)\<close> is interpolated, with the cubic kernel, from
  the second image around the point \<open>(x + dx, y + dy)\<close>, where \<open>(dx, dy)\<close> is the
  flow at \<open>(y, x)\<close>; the kernel reads every position outside the second image as
  the constant pixel with all four channels zero, which is fully transparent, and
  neither wraps around nor clamps to the edge.
\<close>

theorem warp_samples_secondary:
  assumes run: "warp_secondary env img img2 flow w = (Inr wp, w')"
    and flow: "rect flow" "same_size flow img"
    and yx: "y < rows img" "x < cols img"
  shows "same_size img img2
    \<and> same_size wp img
    \<and> mat_at wp y x =
        interpolate env CV_INTER_CUBIC (border_fetch BORDER_CONSTANT (Vec4b 0 0 0 0) img2)
          (Point2f (fadd (float_of_int (int x)) (pt_x (mat_at flow y x)))
                   (fadd (float_of_int (int y)) (pt_y (mat_at flow y x))))
    \<and> (\<forall>sx sy. \<not> (0 \<le> sx \<and> sx < int (cols img2) \<and> 0 \<le> sy \<and> sy < int (rows img2)) \<longrightarrow>
          border_fetch BORDER_CONSTANT (Vec4b 0 0 0 0) img2 sx sy = Vec4b 0 0 0 0)"
proof -
  let ?wm = "warp_loop flow (new_warpMat (rows img) (cols img))"
  have same: "same_size img img2" and wp: "wp = remap env img2 ?wm CV_INTER_CUBIC BORDER_CONSTANT"
    using run by (auto simp: warp_secondary_run warped_def split: if_splits)
  have h: "0 < rows img" using yx by simp
  have wm: "rect ?wm" "rows ?wm = rows img" "cols ?wm = cols img"
    using h by (simp_all add: warp_loop_props new_warpMat_props)
  have pt: "mat_at ?wm y x = warp_point flow y x"
    using yx h by (simp add: warp_loop_props new_warpMat_props)
  have "mat_at wp y x =
      interpolate env CV_INTER_CUBIC (border_fetch BORDER_CONSTANT (Vec4b 0 0 0 0) img2) (mat_at ?wm y x)"
    unfolding wp remap_def using wm yx by (simp add: mat_at_map_map_rect)
  moreover have "same_size wp img"
    unfolding wp remap_def using wm by (simp add: same_size_def rows_map_map cols_map_map)
  ultimately show ?thesis
    using same pt by (simp add: warp_point_def point_add_def border_fetch_def)
qed

theorem warp_samples_secondary_witness:
  "warp_secondary example_env [[Vec4b 10 20 30 0, Vec4b 40 50 60 255]]
      [[Vec4b 4 5 6 255, Vec4b 1 2 3 0]]
      [[Point2f (Finite 0) (Finite 0), Point2f (Finite 0) (Finite 0)]] example_disk =
     (Inr [[Vec4b 4 5 6 255, Vec4b 1 2 3 0]],
      snd (warp_secondary example_env [[Vec4b 10 20 30 0, Vec4b 40 50 60 255]]
             [[Vec4b 4 5 6 255, Vec4b 1 2 3 0]]
             [[Point2f (Finite 0) (Finite 0), Point2f (Finite 0) (Finite 0)]] example_disk))
   \<and> rect [[Point2f (Finite 0) (Finite 0), Point2f (Finite 0) (Finite 0)]]
   \<and> same_size [[Point2f (Finite 0) (Finite 0), Point2f (Finite 0) (Finite 0)]]
        [[Vec4b 10 20 30 0, Vec4b 40 50 60 255]]
   \<and> (0::nat) < rows [[Vec4b 10 20 30 0, Vec4b 40 50 60 255]]
   \<and> (1::nat) < cols [[Vec4b 10 20 30 0, Vec4b 40 50 60 255]]
   \<and> mat_at [[Vec4b 4 5 6 255, Vec4b 1 2 3 0]] 0 1 =
       interpolate example_env CV_INTER_CUBIC
         (border_fetch BORDER_CONSTANT (Vec4b 0 0 0 0) [[Vec4b 4 5 6 255, Vec4b 1 2 3 0]])
         (Point2f (Finite 1) (Finite 0))
   \<and> border_fetch BORDER_CONSTANT (Vec4b 0 0 0 0) [[Vec4b 4 5 6 255, Vec4b 1 2 3 0]] 2 0 =
       Vec4b 0 0 0 0"
proof -
  let ?img = "[[Vec4b 10 20 30 0, Vec4b 40 50 60 255]]"
  let ?img2 = "[[Vec4b 4 5 6 255, Vec4b 1 2 3 0]]"
  let ?flow = "[[Point2f (Finite 0) (Finite 0), Point2f (Finite 0) (Finite 0)]]"
  have size: "same_size ?img ?img2"
    by (simp add: same_size_def rows_def cols_def)
  have run: "warp_secondary example_env ?img ?img2 ?flow example_disk =
     (Inr ?img2, snd (warp_secondary example_env ?img ?img2 ?flow example_disk))"
    using size by (simp add: warp_secondary_run warped_example)
  have h: "rect ?flow" "same_size ?flow ?img" "(0::nat) < rows ?img" "(1::nat) < cols ?img"
    by (simp_all add: rect_def same_size_def rows_def cols_def)
  note fact = warp_samples_secondary [OF run h]
  have a: "mat_at ?img2 0 1 =
       interpolate example_env CV_INTER_CUBIC (border_fetch BORDER_CONSTANT (Vec4b 0 0 0 0) ?img2)
         (Point2f (Finite 1) (Finite 0))"
    using fact by (simp add: float_of_int_def round32_examples mat_at_def)
  have b: "border_fetch BORDER_CONSTANT (Vec4b 0 0 0 0) ?img2 2 0 = Vec4b 0 0 0 0"
    using fact by (simp add: cols_def)
  show ?thesis
    using run h a b by blast
qed

end
